theory Spec2Isabelle
  imports Main "HOL-Library.Sublist"
begin

section \<open>Constraint levels and facade constraints (proxy.h, lines 18-47)\<close>

text \<open>
  \<^verbatim>\<open>enum class constraint_level { none, nontrivial, nothrow, trivial };\<close>
  The enumerators are compared by their underlying values 0, 1, 2, 3.
\<close>

datatype constraint_level = none | nontrivial | nothrow | trivial

fun level_value :: "constraint_level \<Rightarrow> nat" where
  "level_value none = 0"
| "level_value nontrivial = 1"
| "level_value nothrow = 2"
| "level_value trivial = 3"

definition level_lt :: "constraint_level \<Rightarrow> constraint_level \<Rightarrow> bool" where
  "level_lt a b = (level_value a < level_value b)"

definition level_ge :: "constraint_level \<Rightarrow> constraint_level \<Rightarrow> bool" where
  "level_ge a b = (level_value b \<le> level_value a)"

record proxiable_ptr_constraints =
  max_size :: nat
  max_align :: nat
  copyability :: constraint_level
  relocatability :: constraint_level
  destructibility :: constraint_level

text \<open>
  The three preset bundles. \<^verbatim>\<open>sizeof(void*)\<close> and \<^verbatim>\<open>alignof(void*)\<close> belong to
  the platform and are parameters.
\<close>

definition relocatable_ptr_constraints :: "nat \<Rightarrow> nat \<Rightarrow> proxiable_ptr_constraints" where
  "relocatable_ptr_constraints sizeof_ptr alignof_ptr =
     \<lparr>max_size = sizeof_ptr * 2, max_align = alignof_ptr, copyability = none,
      relocatability = nothrow, destructibility = nothrow\<rparr>"

definition copyable_ptr_constraints :: "nat \<Rightarrow> nat \<Rightarrow> proxiable_ptr_constraints" where
  "copyable_ptr_constraints sizeof_ptr alignof_ptr =
     \<lparr>max_size = sizeof_ptr * 2, max_align = alignof_ptr, copyability = nontrivial,
      relocatability = nothrow, destructibility = nothrow\<rparr>"

definition trivial_ptr_constraints :: "nat \<Rightarrow> nat \<Rightarrow> proxiable_ptr_constraints" where
  "trivial_ptr_constraints sizeof_ptr alignof_ptr =
     \<lparr>max_size = sizeof_ptr, max_align = alignof_ptr, copyability = trivial,
      relocatability = trivial, destructibility = trivial\<rparr>"

section \<open>Lifetime entries of the dispatch table (proxy.h, lines 99-101 and 199-276)\<close>

text \<open>
  \<^verbatim>\<open>requires_lifetime_meta(level)\<close> is
  \<^verbatim>\<open>level > constraint_level::none && level < constraint_level::trivial\<close>.
\<close>

definition requires_lifetime_meta :: "constraint_level \<Rightarrow> bool" where
  "requires_lifetime_meta level = (level_lt none level \<and> level_lt level trivial)"

text \<open>
  The three provider templates. Each is specialised for \<^verbatim>\<open>nontrivial\<close> (a
  dispatcher that may throw) and for \<^verbatim>\<open>nothrow\<close> (a \<^verbatim>\<open>noexcept\<close> dispatcher)
  and is left incomplete for the other two levels.
\<close>

datatype meta_provider =
  copyability_meta_provider | relocatability_meta_provider | destructibility_meta_provider

fun provider_dispatcher_noexcept :: "meta_provider \<Rightarrow> constraint_level \<Rightarrow> bool option" where
  "provider_dispatcher_noexcept MP nontrivial = Some False"
| "provider_dispatcher_noexcept MP nothrow = Some True"
| "provider_dispatcher_noexcept MP none = None"
| "provider_dispatcher_noexcept MP trivial = None"

text \<open>
  A component of \<^verbatim>\<open>composite_meta<Ms...>\<close>: either
  \<^verbatim>\<open>lifetime_meta_impl<MP, C>\<close>, which stores one dispatcher, or the facade's
  reflection type (identified by its name).
\<close>

datatype meta_component =
  lifetime_meta_impl meta_provider constraint_level
| reflection_meta string

text \<open>
  \<^verbatim>\<open>lifetime_meta<MP, C>\<close> is \<^verbatim>\<open>lifetime_meta_impl<MP, C>\<close> when
  \<^verbatim>\<open>requires_lifetime_meta(C)\<close> and \<^verbatim>\<open>void\<close> otherwise; \<^verbatim>\<open>void\<close> is \<open>None\<close>.
\<close>

definition lifetime_meta :: "meta_provider \<Rightarrow> constraint_level \<Rightarrow> meta_component option" where
  "lifetime_meta MP C = (if requires_lifetime_meta C then Some (lifetime_meta_impl MP C) else None)"

text \<open>
  \<^verbatim>\<open>facade_meta_reduction\<close> appends a component that is not \<^verbatim>\<open>void\<close> and
  \<^verbatim>\<open>recursive_reduction\<close> folds it from the left over the pack.
\<close>

fun facade_meta_reduction :: "meta_component list \<Rightarrow> meta_component option \<Rightarrow> meta_component list" where
  "facade_meta_reduction Ms None = Ms"
| "facade_meta_reduction Ms (Some I) = Ms @ [I]"

fun recursive_reduction :: "('o \<Rightarrow> 'i \<Rightarrow> 'o) \<Rightarrow> 'o \<Rightarrow> 'i list \<Rightarrow> 'o" where
  "recursive_reduction R O' [] = O'"
| "recursive_reduction R O' (I # Is) = recursive_reduction R (R O' I) Is"

definition copyability_meta :: "proxiable_ptr_constraints \<Rightarrow> meta_component option" where
  "copyability_meta C = lifetime_meta copyability_meta_provider (copyability C)"

definition relocatability_meta :: "proxiable_ptr_constraints \<Rightarrow> meta_component option" where
  "relocatability_meta C = lifetime_meta relocatability_meta_provider (relocatability C)"

definition destructibility_meta :: "proxiable_ptr_constraints \<Rightarrow> meta_component option" where
  "destructibility_meta C = lifetime_meta destructibility_meta_provider (destructibility C)"

text \<open>
  \<^verbatim>\<open>basic_facade_traits_impl::meta\<close>: the composite of the lifetime entries that
  exist and of the reflection type when it is not \<^verbatim>\<open>void\<close>.
\<close>

definition basic_meta :: "proxiable_ptr_constraints \<Rightarrow> string option \<Rightarrow> meta_component list" where
  "basic_meta C R =
     recursive_reduction facade_meta_reduction []
       [copyability_meta C, relocatability_meta C, destructibility_meta C,
        map_option reflection_meta R]"

text \<open>The table holds an entry of a provider when a component of that provider is in it.\<close>

fun is_entry_of :: "meta_provider \<Rightarrow> meta_component \<Rightarrow> bool" where
  "is_entry_of MP (lifetime_meta_impl MP' C) = (MP = MP')"
| "is_entry_of MP (reflection_meta R) = False"

definition entry_present :: "meta_provider \<Rightarrow> meta_component list \<Rightarrow> bool" where
  "entry_present MP Ms = list_ex (is_entry_of MP) Ms"

fun entry_noexcept :: "meta_component \<Rightarrow> bool option" where
  "entry_noexcept (lifetime_meta_impl MP C) = provider_dispatcher_noexcept MP C"
| "entry_noexcept (reflection_meta R) = None"

section \<open>Types as the compiler sees them\<close>

text \<open>
  The checker asks the compiler about a candidate holder type \<^verbatim>\<open>P\<close> through
  \<^verbatim>\<open>sizeof\<close>, \<^verbatim>\<open>alignof\<close> and the standard type traits. Their answers are
  not part of the library; a type is given here by the answers.
  \<^verbatim>\<open>ptr_traits<P>\<close> is applicable when \<^verbatim>\<open>P\<close> is a raw pointer, or
  \<^verbatim>\<open>std::pointer_traits<P>::to_address(p)\<close> or \<^verbatim>\<open>p.operator->()\<close> is valid;
  \<open>pointee\<close> names the type \<^verbatim>\<open>T\<close> of its \<^verbatim>\<open>reference_type = T&\<close>.
\<close>

record type_traits =
  type_name :: string
  sizeof :: nat
  alignof :: nat
  is_copy_constructible :: bool
  is_nothrow_copy_constructible :: bool
  is_trivially_copy_constructible :: bool
  is_move_constructible :: bool
  is_nothrow_move_constructible :: bool
  is_trivially_move_constructible :: bool
  is_destructible :: bool
  is_nothrow_destructible :: bool
  is_trivially_destructible :: bool
  is_raw_pointer :: bool
  has_pointer_traits_to_address :: bool
  has_operator_arrow :: bool
  pointee :: string

text \<open>Parameter and return types of call signatures.\<close>

datatype cxx_type =
  t_void | t_bool | t_char | t_short | t_int | t_long | t_float | t_double | t_class string

text \<open>
  An element of \<^verbatim>\<open>D::overload_types\<close>: a function type
  \<^verbatim>\<open>R(Args...)\<close> or \<^verbatim>\<open>R(Args...) noexcept\<close>, or some other type, for
  which \<^verbatim>\<open>overload_traits\<close> is inapplicable.
\<close>

datatype overload = fn_type cxx_type "cxx_type list" bool | not_fn_type string


text \<open>
  A dispatch type \<^verbatim>\<open>D\<close>. \<open>overload_types\<close> is \<open>None\<close> when \<^verbatim>\<open>D\<close> has no
  member \<^verbatim>\<open>overload_types\<close> that is a \<^verbatim>\<open>std::tuple\<close>. Whether
  \<^verbatim>\<open>D{}(ref, args...)\<close> compiles is the compiler's answer to
  \<^verbatim>\<open>std::is_invocable_v<D, T&, Args...>\<close>, a parameter as well.
\<close>

record dispatch =
  dispatch_name :: string
  overload_types :: "overload list option"
  is_trivially_default_constructible :: bool
  is_invocable :: "string \<Rightarrow> cxx_type list \<Rightarrow> bool"
  is_nothrow_invocable :: "string \<Rightarrow> cxx_type list \<Rightarrow> bool"

record reflection =
  reflection_name :: string
  is_trivially_copyable :: bool
  is_constructible_from_in_place_type :: "string \<Rightarrow> bool"

text \<open>
  A facade type \<^verbatim>\<open>F\<close> with its three members; \<open>reflection_type = None\<close> is
  \<^verbatim>\<open>void\<close>. That the members exist and that \<^verbatim>\<open>F::constraints\<close> has type
  \<^verbatim>\<open>const proxiable_ptr_constraints\<close> is what the record type says.
\<close>

record facade_type =
  constraints :: proxiable_ptr_constraints
  dispatch_types :: "dispatch list"
  reflection_type :: "reflection option"

section \<open>Constraint and capability checker (proxy.h, lines 62-98, 103-191, 281-330)\<close>

fun has_copyability :: "type_traits \<Rightarrow> constraint_level \<Rightarrow> bool" where
  "has_copyability T trivial = is_trivially_copy_constructible T"
| "has_copyability T nothrow = is_nothrow_copy_constructible T"
| "has_copyability T nontrivial = is_copy_constructible T"
| "has_copyability T none = True"

fun has_relocatability :: "type_traits \<Rightarrow> constraint_level \<Rightarrow> bool" where
  "has_relocatability T trivial =
     (is_trivially_move_constructible T \<and> is_trivially_destructible T)"
| "has_relocatability T nothrow =
     (is_nothrow_move_constructible T \<and> is_nothrow_destructible T)"
| "has_relocatability T nontrivial = (is_move_constructible T \<and> is_destructible T)"
| "has_relocatability T none = True"

fun has_destructibility :: "type_traits \<Rightarrow> constraint_level \<Rightarrow> bool" where
  "has_destructibility T trivial = is_trivially_destructible T"
| "has_destructibility T nothrow = is_nothrow_destructible T"
| "has_destructibility T nontrivial = is_destructible T"
| "has_destructibility T none = True"

definition ptr_traits_applicable :: "type_traits \<Rightarrow> bool" where
  "ptr_traits_applicable P =
     (has_pointer_traits_to_address P \<or> has_operator_arrow P \<or> is_raw_pointer P)"

fun overload_traits_applicable :: "overload \<Rightarrow> bool" where
  "overload_traits_applicable (fn_type R Args ne) = True"
| "overload_traits_applicable (not_fn_type n) = False"

text \<open>
  \<^verbatim>\<open>overload_traits<O>::is_noexcept\<close> and
  \<^verbatim>\<open>overload_traits<O>::applicable_ptr<D, P>\<close>:
  \<^verbatim>\<open>std::is_invocable_v<D, reference_type, Args...>\<close> for a signature that may
  throw, \<^verbatim>\<open>std::is_nothrow_invocable_v\<close> for a \<^verbatim>\<open>noexcept\<close> one. The primary
  template has no such member; \<open>dispatch_traits_applicable\<close> keeps it from being asked.
  \<^verbatim>\<open>ptr_traits<P>::reference_type\<close> exists when \<^verbatim>\<open>ptr_traits<P>\<close> is
  applicable, and \<open>proxiable\<close> asks for it only then.
\<close>

fun is_noexcept :: "overload \<Rightarrow> bool" where
  "is_noexcept (fn_type R Args ne) = ne"
| "is_noexcept (not_fn_type n) = False"

fun overload_applicable_ptr :: "dispatch \<Rightarrow> type_traits \<Rightarrow> overload \<Rightarrow> bool" where
  "overload_applicable_ptr D P (fn_type R Args ne) =
     (if ne then is_nothrow_invocable D (pointee P) Args else is_invocable D (pointee P) Args)"
| "overload_applicable_ptr D P (not_fn_type n) = False"

text \<open>
  \<^verbatim>\<open>dispatch_traits<D>\<close>: applicable when \<^verbatim>\<open>D::overload_types\<close> exists,
  \<^verbatim>\<open>D\<close> is trivially default constructible, the tuple is not empty and every element
  is a function type.
\<close>

definition dispatch_traits_applicable :: "dispatch \<Rightarrow> bool" where
  "dispatch_traits_applicable D =
     (case overload_types D of
        None \<Rightarrow> False
      | Some Os \<Rightarrow> is_trivially_default_constructible D \<and> 0 < length Os \<and>
                   list_all overload_traits_applicable Os)"

definition dispatch_applicable_ptr :: "dispatch \<Rightarrow> type_traits \<Rightarrow> bool" where
  "dispatch_applicable_ptr D P =
     (case overload_types D of
        None \<Rightarrow> False
      | Some Os \<Rightarrow> list_all (overload_applicable_ptr D P) Os)"

text \<open>\<^verbatim>\<open>std::has_single_bit(x)\<close>: exactly one bit of \<^verbatim>\<open>x\<close> is set.\<close>

fun has_single_bit :: "nat \<Rightarrow> bool" where
  "has_single_bit n =
     (if n = 0 then False else if n = 1 then True
      else n mod 2 = 0 \<and> has_single_bit (n div 2))"

definition basic_facade :: "facade_type \<Rightarrow> bool" where
  "basic_facade F =
     (has_single_bit (max_align (constraints F)) \<and>
      max_size (constraints F) mod max_align (constraints F) = 0 \<and>
      (case reflection_type F of None \<Rightarrow> True | Some R \<Rightarrow> is_trivially_copyable R))"

definition facade_traits_applicable :: "facade_type \<Rightarrow> bool" where
  "facade_traits_applicable F = list_all dispatch_traits_applicable (dispatch_types F)"

definition facade :: "facade_type \<Rightarrow> bool" where
  "facade F = (basic_facade F \<and> facade_traits_applicable F)"

text \<open>\<^verbatim>\<open>facade_traits_impl::applicable_ptr<P>\<close>, conjunct by conjunct.\<close>

definition applicable_ptr :: "facade_type \<Rightarrow> type_traits \<Rightarrow> bool" where
  "applicable_ptr F P =
     (sizeof P \<le> max_size (constraints F) \<and>
      alignof P \<le> max_align (constraints F) \<and>
      has_copyability P (copyability (constraints F)) \<and>
      has_relocatability P (relocatability (constraints F)) \<and>
      has_destructibility P (destructibility (constraints F)) \<and>
      list_all (\<lambda>D. dispatch_applicable_ptr D P) (dispatch_types F) \<and>
      (case reflection_type F of
         None \<Rightarrow> True
       | Some R \<Rightarrow> is_constructible_from_in_place_type R (type_name P)))"

text \<open>
  \<^verbatim>\<open>concept proxiable = facade<F> && ptr_traits<P>::applicable &&
  facade_traits<F>::applicable_ptr<P>\<close>. The conjunction is evaluated from the left.
\<close>

definition proxiable :: "type_traits \<Rightarrow> facade_type \<Rightarrow> bool" where
  "proxiable P F = (facade F \<and> ptr_traits_applicable P \<and> applicable_ptr F P)"

section \<open>Overload resolver (proxy.h, lines 119-124, 140-144 and 166-181)\<close>
















section \<open>Outcomes of running a member function\<close>

text \<open>
  A call returns a value in a new state, or leaves by an exception in a new state, or
  ends in \<^verbatim>\<open>std::terminate\<close> (an exception leaving a \<^verbatim>\<open>noexcept\<close> function), or
  has undefined behaviour, or does not compile at all (the selected function is deleted,
  its requires-clause fails or its body is ill-formed). The library throws nothing of
  its own: an exception is \<^verbatim>\<open>std::bad_alloc\<close> out of \<^verbatim>\<open>new\<close>, or whatever a
  constructor of the value type throws.
\<close>

datatype exn = bad_alloc | type_exn

datatype ('a, 's) outcome =
  Returns 'a 's | Throws exn 's | Terminates | Undefined | Ill_formed

fun and_then :: "('a, 's) outcome \<Rightarrow> ('a \<Rightarrow> 's \<Rightarrow> ('b, 's) outcome) \<Rightarrow> ('b, 's) outcome" where
  "and_then (Returns a s) f = f a s"
| "and_then (Throws e s) f = Throws e s"
| "and_then Terminates f = Terminates"
| "and_then Undefined f = Undefined"
| "and_then Ill_formed f = Ill_formed"

fun noexcept :: "bool \<Rightarrow> ('a, 's) outcome \<Rightarrow> ('a, 's) outcome" where
  "noexcept True (Throws e s) = Terminates"
| "noexcept b m = m"

section \<open>Values, holders and the machine state\<close>

text \<open>
  The value type \<^verbatim>\<open>T\<close> is the user's. Its constructors are parameters:
  \<open>T_copy\<close> is the construction of a \<^verbatim>\<open>T\<close> from an lvalue of type
  \<^verbatim>\<open>T\<close>, by the copy constructor, and \<open>T_move\<close> the construction from an
  rvalue, by the move constructor or, in a class that declares none, by the copy
  constructor; each gives the value of the new object, or \<open>None\<close> when it throws.
  The destructor has no effect on the state and does not throw.
\<close>

record 'v value_type =
  T_copy :: "'v \<Rightarrow> 'v option"
  T_move :: "'v \<Rightarrow> 'v option"

text \<open>
  The holder types of the library: \<^verbatim>\<open>sbo_ptr<T>\<close> contains the value,
  \<^verbatim>\<open>deep_ptr<T>\<close> contains a pointer \<^verbatim>\<open>T* ptr_\<close> (\<open>None\<close> is
  \<^verbatim>\<open>nullptr\<close>) to a block of the free store. The buffer \<^verbatim>\<open>char ptr_[max_size]\<close>
  of a proxy holds the bytes of one of them, or bytes that are no object.
  \<^verbatim>\<open>meta_\<close> points to \<^verbatim>\<open>Traits::meta_storage<P>\<close>, one table for each holder
  type \<^verbatim>\<open>P\<close>, so it is given by \<^verbatim>\<open>P\<close>; \<open>None\<close> is \<^verbatim>\<open>nullptr\<close>.
  The members \<^verbatim>\<open>meta_\<close> and \<^verbatim>\<open>ptr_\<close> are the fields \<open>proxy_meta\<close> and
  \<open>proxy_ptr\<close>.
\<close>

datatype holder_type = sbo_ptr | deep_ptr

datatype 'v storage = sbo_bytes 'v | deep_bytes "nat option" | indeterminate

record 'v proxy =
  proxy_meta :: "holder_type option"
  proxy_ptr :: "'v storage"

text \<open>
  Proxy objects live at places: the objects of the caller, by address, and the one
  temporary or local proxy that a member function creates. The free store is a list of
  blocks indexed by address; a freed block is \<open>None\<close>, a new block gets the next
  address (so it differs from the address of every block that is allocated at that
  time), and \<open>allocations_left\<close> bounds the blocks that can still be allocated.
  \<open>calls\<close> records every call of a lifetime entry of a dispatch table, in order.
\<close>

datatype place = object nat | temporary

datatype call = copy_entry holder_type | move_entry holder_type | destroy_entry holder_type

record 'v machine =
  objects :: "place \<Rightarrow> 'v proxy"
  heap :: "'v option list"
  allocations_left :: nat
  calls :: "call list"

definition set_meta :: "place \<Rightarrow> holder_type option \<Rightarrow> 'v machine \<Rightarrow> 'v machine" where
  "set_meta a m s = s\<lparr>objects := (objects s)(a := (objects s a)\<lparr>proxy_meta := m\<rparr>)\<rparr>"

definition set_ptr :: "place \<Rightarrow> 'v storage \<Rightarrow> 'v machine \<Rightarrow> 'v machine" where
  "set_ptr a b s = s\<lparr>objects := (objects s)(a := (objects s a)\<lparr>proxy_ptr := b\<rparr>)\<rparr>"

definition record_call :: "call \<Rightarrow> 'v machine \<Rightarrow> 'v machine" where
  "record_call c s = s\<lparr>calls := calls s @ [c]\<rparr>"

definition heap_lookup :: "'v option list \<Rightarrow> nat \<Rightarrow> 'v option" where
  "heap_lookup h p = (if p < length h then h ! p else None)"

text \<open>
  \<^verbatim>\<open>new T(...)\<close>, given what the constructor of \<^verbatim>\<open>T\<close> produces (\<open>None\<close>: it
  throws \<open>e\<close>, and the block is given back before the exception leaves), and
  \<^verbatim>\<open>delete p\<close>.
\<close>

definition new_expr :: "exn \<Rightarrow> 'v option \<Rightarrow> 'v machine \<Rightarrow> (nat, 'v machine) outcome" where
  "new_expr e r s =
     (if allocations_left s = 0 then Throws bad_alloc s
      else case r of
             None \<Rightarrow> Throws e s
           | Some v \<Rightarrow> Returns (length (heap s))
                        (s\<lparr>heap := heap s @ [Some v],
                          allocations_left := allocations_left s - 1\<rparr>))"

definition delete_expr :: "nat option \<Rightarrow> 'v machine \<Rightarrow> (unit, 'v machine) outcome" where
  "delete_expr p s =
     (case p of
        None \<Rightarrow> Returns () s
      | Some a \<Rightarrow>
          (case heap_lookup (heap s) a of
             None \<Rightarrow> Undefined
           | Some v \<Rightarrow> Returns () (s\<lparr>heap := (heap s)[a := None],
                                    allocations_left := allocations_left s + 1\<rparr>)))"

section \<open>Storage adaptors (proxy.h, lines 557-590)\<close>

text \<open>
  \<^verbatim>\<open>sbo_ptr<T>\<close>: the copy and move constructors are defaulted and construct
  \<^verbatim>\<open>value_\<close> from the other \<^verbatim>\<open>value_\<close>.
\<close>

definition sbo_ptr_copy :: "'v value_type \<Rightarrow> 'v \<Rightarrow> 'v machine \<Rightarrow> ('v, 'v machine) outcome" where
  "sbo_ptr_copy T v s = (case T_copy T v of None \<Rightarrow> Throws type_exn s | Some v' \<Rightarrow> Returns v' s)"

definition sbo_ptr_move :: "'v value_type \<Rightarrow> 'v \<Rightarrow> 'v machine \<Rightarrow> ('v, 'v machine) outcome" where
  "sbo_ptr_move T v s = (case T_move T v of None \<Rightarrow> Throws type_exn s | Some v' \<Rightarrow> Returns v' s)"

text \<open>
  \<^verbatim>\<open>deep_ptr<T>\<close>, an object being its member \<^verbatim>\<open>ptr_\<close>:
  \<^verbatim>\<open>deep_ptr(Args&&... args) : ptr_(new T(args...))\<close>, given what
  \<^verbatim>\<open>T(args...)\<close> produces;
  \<^verbatim>\<open>deep_ptr(const deep_ptr& rhs) : ptr_(rhs.ptr_ == nullptr ? nullptr : new T(*rhs.ptr_))\<close>;
  \<^verbatim>\<open>deep_ptr(deep_ptr&& rhs) noexcept : ptr_(rhs.ptr_) { rhs.ptr_ = nullptr; }\<close>,
  which gives the new object and what is left of \<^verbatim>\<open>rhs\<close>;
  \<^verbatim>\<open>~deep_ptr() noexcept { delete ptr_; }\<close>.
  Reading through a pointer to a block that is not there is undefined.
\<close>

definition deep_ptr_ctor :: "'v option \<Rightarrow> 'v machine \<Rightarrow> (nat option, 'v machine) outcome" where
  "deep_ptr_ctor r s = and_then (new_expr type_exn r s) (\<lambda>q. Returns (Some q))"

definition deep_ptr_copy :: "'v value_type \<Rightarrow> nat option \<Rightarrow> 'v machine \<Rightarrow> (nat option, 'v machine) outcome" where
  "deep_ptr_copy T rhs s =
     (case rhs of
        None \<Rightarrow> Returns None s
      | Some p \<Rightarrow>
          (case heap_lookup (heap s) p of
             None \<Rightarrow> Undefined
           | Some v \<Rightarrow> and_then (new_expr type_exn (T_copy T v) s) (\<lambda>q. Returns (Some q))))"

definition deep_ptr_move :: "nat option \<Rightarrow> nat option \<times> nat option" where
  "deep_ptr_move rhs = (rhs, None)"

definition deep_ptr_dtor :: "nat option \<Rightarrow> 'v machine \<Rightarrow> (unit, 'v machine) outcome" where
  "deep_ptr_dtor p s = noexcept True (delete_expr p s)"

definition deep_ptr_arrow :: "nat option \<Rightarrow> nat option" where
  "deep_ptr_arrow p = p"

section \<open>Dispatchers of the lifetime entries (proxy.h, lines 199-240)\<close>

text \<open>
  The dispatchers reinterpret a buffer as a holder of type \<^verbatim>\<open>P\<close>; that is undefined
  when the buffer holds something else.
  \<^verbatim>\<open>new(self) P(*reinterpret_cast<const P*>(rhs))\<close> gives the bytes of the new
  holder; \<^verbatim>\<open>new(self) P(std::move(*reinterpret_cast<P*>(rhs)))\<close> gives them
  together with what is left in \<^verbatim>\<open>rhs\<close>; \<^verbatim>\<open>reinterpret_cast<P*>(self)->~P()\<close>
  ends the holder.
\<close>

fun construct_copy :: "'v value_type \<Rightarrow> holder_type \<Rightarrow> 'v storage \<Rightarrow> 'v machine \<Rightarrow>
    ('v storage, 'v machine) outcome" where
  "construct_copy T sbo_ptr (sbo_bytes v) s =
     and_then (sbo_ptr_copy T v s) (\<lambda>v'. Returns (sbo_bytes v'))"
| "construct_copy T deep_ptr (deep_bytes q) s =
     and_then (deep_ptr_copy T q s) (\<lambda>q'. Returns (deep_bytes q'))"
| "construct_copy T P b s = Undefined"

fun construct_move :: "'v value_type \<Rightarrow> holder_type \<Rightarrow> 'v storage \<Rightarrow> 'v machine \<Rightarrow>
    ('v storage \<times> 'v storage, 'v machine) outcome" where
  "construct_move T sbo_ptr (sbo_bytes v) s =
     and_then (sbo_ptr_move T v s) (\<lambda>v'. Returns (sbo_bytes v', sbo_bytes v))"
| "construct_move T deep_ptr (deep_bytes q) s =
     Returns (deep_bytes (fst (deep_ptr_move q)), deep_bytes (snd (deep_ptr_move q))) s"
| "construct_move T P b s = Undefined"

fun destroy_holder :: "holder_type \<Rightarrow> 'v storage \<Rightarrow> 'v machine \<Rightarrow> (unit, 'v machine) outcome" where
  "destroy_holder sbo_ptr (sbo_bytes v) s = Returns () s"
| "destroy_holder deep_ptr (deep_bytes q) s = deep_ptr_dtor q s"
| "destroy_holder P b s = Undefined"

text \<open>
  The bodies of \<^verbatim>\<open>copyability_meta_provider<C>::dispatcher<P>(self, rhs)\<close>,
  \<^verbatim>\<open>relocatability_meta_provider<C>::dispatcher<P>(self, rhs)\<close> and
  \<^verbatim>\<open>destructibility_meta_provider<C>::dispatcher<P>(self)\<close> on the buffers of the
  proxies at \<open>self\<close> and \<open>rhs\<close>. A holder cannot be constructed from the bytes
  it is being constructed in. After a destructor the bytes are no object.
\<close>

definition copyability_dispatcher :: "'v value_type \<Rightarrow> holder_type \<Rightarrow> place \<Rightarrow> place \<Rightarrow>
    'v machine \<Rightarrow> (unit, 'v machine) outcome" where
  "copyability_dispatcher T P self rhs s =
     (if self = rhs then Undefined
      else and_then (construct_copy T P (proxy_ptr (objects s rhs)) s)
             (\<lambda>b s1. Returns () (set_ptr self b s1)))"

definition relocatability_dispatcher :: "'v value_type \<Rightarrow> holder_type \<Rightarrow> place \<Rightarrow> place \<Rightarrow>
    'v machine \<Rightarrow> (unit, 'v machine) outcome" where
  "relocatability_dispatcher T P self rhs s =
     (if self = rhs then Undefined
      else and_then (construct_move T P (proxy_ptr (objects s rhs)) s)
             (\<lambda>bl s1. and_then (destroy_holder P (snd bl) (set_ptr self (fst bl) s1))
                (\<lambda>u s2. Returns () (set_ptr rhs indeterminate s2))))"

definition destructibility_dispatcher :: "holder_type \<Rightarrow> place \<Rightarrow> 'v machine \<Rightarrow>
    (unit, 'v machine) outcome" where
  "destructibility_dispatcher P self s =
     and_then (destroy_holder P (proxy_ptr (objects s self)) s)
       (\<lambda>u s1. Returns () (set_ptr self indeterminate s1))"

text \<open>
  A call \<^verbatim>\<open>meta_->BasicTraits::..._meta::dispatcher(...)\<close> through the table. The
  member exists when the entry is a \<^verbatim>\<open>lifetime_meta_impl\<close>, not \<^verbatim>\<open>void\<close>; the
  dispatcher is the one of the provider's specialisation for the level, \<^verbatim>\<open>noexcept\<close>
  or not.
\<close>

fun call_entry :: "meta_component option \<Rightarrow> call \<Rightarrow> ('v machine \<Rightarrow> (unit, 'v machine) outcome) \<Rightarrow>
    'v machine \<Rightarrow> (unit, 'v machine) outcome" where
  "call_entry (Some (lifetime_meta_impl MP L)) c body s =
     (case provider_dispatcher_noexcept MP L of
        None \<Rightarrow> Ill_formed
      | Some ne \<Rightarrow> noexcept ne (body (record_call c s)))"
| "call_entry (Some (reflection_meta R)) c body s = Ill_formed"
| "call_entry None c body s = Ill_formed"

section \<open>The proxy container (proxy.h, lines 332-553)\<close>

text \<open>
  The header includes \<^verbatim>\<open><bit>\<close>, \<^verbatim>\<open><concepts>\<close>, \<^verbatim>\<open><initializer_list>\<close>,
  \<^verbatim>\<open><memory>\<close>, \<^verbatim>\<open><new>\<close>, \<^verbatim>\<open><tuple>\<close>, \<^verbatim>\<open><type_traits>\<close> and
  \<^verbatim>\<open><utility>\<close>, none of which has to declare \<^verbatim>\<open>memcpy\<close>, and its move
  constructor calls \<^verbatim>\<open>memcpy(ptr_, rhs.ptr_, F::constraints.max_size)\<close> unqualified,
  on arguments of fundamental types, for which argument-dependent lookup finds nothing.
  Whether a declaration of \<^verbatim>\<open>memcpy\<close> is visible where the header is included
  belongs to the translation unit; it is a parameter. The branch with the call is
  compiled when relocation is trivial, and does not compile without a declaration.
\<close>

record translation_unit =
  declares_memcpy :: bool

definition memcpy_missing :: "translation_unit \<Rightarrow> proxiable_ptr_constraints \<Rightarrow> bool" where
  "memcpy_missing U C = (relocatability C = trivial \<and> \<not> declares_memcpy U)"

text \<open>The capability constants of \<^verbatim>\<open>proxy<F>\<close>, from \<^verbatim>\<open>F::constraints\<close>.\<close>

definition HasTrivialCopyConstructor :: "proxiable_ptr_constraints \<Rightarrow> bool" where
  "HasTrivialCopyConstructor C = (copyability C = trivial)"

definition HasNothrowCopyConstructor :: "proxiable_ptr_constraints \<Rightarrow> bool" where
  "HasNothrowCopyConstructor C = level_ge (copyability C) nothrow"

definition HasCopyConstructor :: "proxiable_ptr_constraints \<Rightarrow> bool" where
  "HasCopyConstructor C = level_ge (copyability C) nontrivial"

definition HasNothrowMoveConstructor :: "proxiable_ptr_constraints \<Rightarrow> bool" where
  "HasNothrowMoveConstructor C = level_ge (relocatability C) nothrow"

definition HasMoveConstructor :: "proxiable_ptr_constraints \<Rightarrow> bool" where
  "HasMoveConstructor C = level_ge (relocatability C) nontrivial"

definition HasTrivialDestructor :: "proxiable_ptr_constraints \<Rightarrow> bool" where
  "HasTrivialDestructor C = (destructibility C = trivial)"

definition HasNothrowDestructor :: "proxiable_ptr_constraints \<Rightarrow> bool" where
  "HasNothrowDestructor C = level_ge (destructibility C) nothrow"

definition HasDestructor :: "proxiable_ptr_constraints \<Rightarrow> bool" where
  "HasDestructor C = level_ge (destructibility C) nontrivial"

definition HasTrivialCopyAssignment :: "proxiable_ptr_constraints \<Rightarrow> bool" where
  "HasTrivialCopyAssignment C = (HasTrivialCopyConstructor C \<and> HasTrivialDestructor C)"

definition HasNothrowCopyAssignment :: "proxiable_ptr_constraints \<Rightarrow> bool" where
  "HasNothrowCopyAssignment C = (HasNothrowCopyConstructor C \<and> HasNothrowDestructor C)"

definition HasCopyAssignment :: "proxiable_ptr_constraints \<Rightarrow> bool" where
  "HasCopyAssignment C =
     (HasNothrowCopyAssignment C \<or>
      (HasCopyConstructor C \<and> HasMoveConstructor C \<and> HasDestructor C))"

definition HasNothrowMoveAssignment :: "proxiable_ptr_constraints \<Rightarrow> bool" where
  "HasNothrowMoveAssignment C = (HasNothrowMoveConstructor C \<and> HasNothrowDestructor C)"

definition HasMoveAssignment :: "proxiable_ptr_constraints \<Rightarrow> bool" where
  "HasMoveAssignment C = (HasMoveConstructor C \<and> HasDestructor C)"

text \<open>\<^verbatim>\<open>proxy() noexcept { meta_ = nullptr; }\<close>: the buffer is not written.\<close>

definition proxy_ctor :: "place \<Rightarrow> 'v machine \<Rightarrow> (unit, 'v machine) outcome" where
  "proxy_ctor this s = Returns () (set_meta this None s)"

text \<open>
  The three copy constructors, selected by their requires-clauses: the defaulted one
  copies \<^verbatim>\<open>meta_\<close> and \<^verbatim>\<open>ptr_\<close> member by member; the user-provided one calls
  the copy entry of the table of \<^verbatim>\<open>rhs\<close>; the third is deleted.
\<close>

definition proxy_copy_ctor :: "proxiable_ptr_constraints \<Rightarrow> 'v value_type \<Rightarrow> place \<Rightarrow> place \<Rightarrow>
    'v machine \<Rightarrow> (unit, 'v machine) outcome" where
  "proxy_copy_ctor C T this rhs s =
     (if HasTrivialCopyConstructor C then
        Returns () (s\<lparr>objects := (objects s)(this := objects s rhs)\<rparr>)
      else if HasCopyConstructor C then
        noexcept (HasNothrowCopyConstructor C)
          (case proxy_meta (objects s rhs) of
             Some P \<Rightarrow>
               and_then
                 (call_entry (copyability_meta C) (copy_entry P)
                    (copyability_dispatcher T P this rhs) s)
                 (\<lambda>u s1. Returns () (set_meta this (proxy_meta (objects s1 rhs)) s1))
           | None \<Rightarrow> Returns () (set_meta this None s))
      else Ill_formed)"

text \<open>
  The move constructor: \<^verbatim>\<open>memcpy\<close> of the whole buffer when relocation is trivial,
  the move entry otherwise; then \<^verbatim>\<open>meta_ = rhs.meta_; rhs.meta_ = nullptr;\<close>.
  With trivial relocation and no declaration of \<^verbatim>\<open>memcpy\<close> its body does not
  compile, whatever the proxies hold.
\<close>

definition proxy_move_ctor :: "translation_unit \<Rightarrow> proxiable_ptr_constraints \<Rightarrow> 'v value_type \<Rightarrow>
    place \<Rightarrow> place \<Rightarrow> 'v machine \<Rightarrow> (unit, 'v machine) outcome" where
  "proxy_move_ctor U C T this rhs s =
     (if HasMoveConstructor C then
        if memcpy_missing U C then Ill_formed
        else noexcept (HasNothrowMoveConstructor C)
          (case proxy_meta (objects s rhs) of
             Some P \<Rightarrow>
               and_then
                 (if relocatability C = trivial then
                    Returns () (set_ptr this (proxy_ptr (objects s rhs)) s)
                  else call_entry (relocatability_meta C) (move_entry P)
                         (relocatability_dispatcher T P this rhs) s)
                 (\<lambda>u s1. Returns ()
                    (set_meta rhs None (set_meta this (proxy_meta (objects s1 rhs)) s1)))
           | None \<Rightarrow> Returns () (set_meta this None s))
      else Ill_formed)"

text \<open>The three destructors: defaulted (nothing is done), user-provided, deleted.\<close>

definition proxy_dtor :: "proxiable_ptr_constraints \<Rightarrow> place \<Rightarrow> 'v machine \<Rightarrow>
    (unit, 'v machine) outcome" where
  "proxy_dtor C this s =
     (if HasTrivialDestructor C then Returns () s
      else if HasDestructor C then
        noexcept (HasNothrowDestructor C)
          (case proxy_meta (objects s this) of
             Some P \<Rightarrow> call_entry (destructibility_meta C) (destroy_entry P)
                         (destructibility_dispatcher P this) s
           | None \<Rightarrow> Returns () s)
      else Ill_formed)"

definition has_value :: "'v machine \<Rightarrow> place \<Rightarrow> bool" where
  "has_value s this = (proxy_meta (objects s this) \<noteq> None)"


text \<open>
  A temporary or local proxy is destroyed when its scope is left, by return or by an
  exception; an exception out of a destructor while another one is in flight ends in
  \<^verbatim>\<open>std::terminate\<close>.
\<close>

fun destroying_temporary :: "proxiable_ptr_constraints \<Rightarrow> (unit, 'v machine) outcome \<Rightarrow>
    (unit, 'v machine) outcome" where
  "destroying_temporary C (Returns u s) = proxy_dtor C temporary s"
| "destroying_temporary C (Throws e s) =
     (case proxy_dtor C temporary s of
        Returns u s' \<Rightarrow> Throws e s'
      | Throws e' s' \<Rightarrow> Terminates
      | Terminates \<Rightarrow> Terminates
      | Undefined \<Rightarrow> Undefined
      | Ill_formed \<Rightarrow> Ill_formed)"
| "destroying_temporary C Terminates = Terminates"
| "destroying_temporary C Undefined = Undefined"
| "destroying_temporary C Ill_formed = Ill_formed"



text \<open>
  \<^verbatim>\<open>swap\<close>. The branch for trivial relocation reads
  \<^verbatim>\<open>std::swap(meta_, rhs.meta_); std::swap(ptr_, rhs.ptr);\<close> and \<^verbatim>\<open>proxy\<close> has
  no member \<^verbatim>\<open>ptr\<close> (the buffer is \<^verbatim>\<open>ptr_\<close>), so that branch does not compile.
  The other branch declares the local \<^verbatim>\<open>proxy temp\<close>, which needs a destructor that
  is not deleted.
\<close>

definition swap :: "translation_unit \<Rightarrow> proxiable_ptr_constraints \<Rightarrow> 'v value_type \<Rightarrow>
    place \<Rightarrow> place \<Rightarrow> 'v machine \<Rightarrow> (unit, 'v machine) outcome" where
  "swap U C T this rhs s =
     (if \<not> HasMoveConstructor C then Ill_formed
      else if relocatability C = trivial then Ill_formed
      else if \<not> HasDestructor C then Ill_formed
      else
        noexcept (HasNothrowMoveConstructor C)
          (if proxy_meta (objects s this) \<noteq> None then
             if proxy_meta (objects s rhs) \<noteq> None then
               and_then (proxy_move_ctor U C T temporary this s)
                 (\<lambda>u s1. destroying_temporary C
                    (and_then (proxy_move_ctor U C T this rhs s1)
                       (\<lambda>u s2. proxy_move_ctor U C T rhs temporary s2)))
             else proxy_move_ctor U C T rhs this s
           else if proxy_meta (objects s rhs) \<noteq> None then proxy_move_ctor U C T this rhs s
           else Returns () s))"

text \<open>
  What a caller sees through an engaged proxy: the value that the holder in the buffer
  dereferences to (\<^verbatim>\<open>operator->\<close> of \<^verbatim>\<open>sbo_ptr\<close> is \<^verbatim>\<open>&value_\<close>, of
  \<^verbatim>\<open>deep_ptr\<close> is \<^verbatim>\<open>ptr_\<close>). There is none when the proxy is empty.
\<close>

fun holder_value :: "holder_type \<Rightarrow> 'v storage \<Rightarrow> 'v option list \<Rightarrow> 'v option" where
  "holder_value sbo_ptr (sbo_bytes v) h = Some v"
| "holder_value deep_ptr (deep_bytes (Some p)) h = heap_lookup h p"
| "holder_value P b h = None"

definition held_value :: "'v machine \<Rightarrow> place \<Rightarrow> 'v option" where
  "held_value s this =
     (case proxy_meta (objects s this) of
        None \<Rightarrow> None
      | Some P \<Rightarrow> holder_value P (proxy_ptr (objects s this)) (heap s))"

section \<open>The holder types as candidates, and construction from a value (proxy.h, lines 545-549 and 557-603)\<close>

text \<open>
  The traits of the two holder types follow from their class definitions and the traits
  of \<^verbatim>\<open>T\<close>. \<^verbatim>\<open>sbo_ptr<T>\<close> has the one member \<^verbatim>\<open>T value_\<close>, copy and move
  constructors defaulted at their first declaration with the exception specification of
  those of \<^verbatim>\<open>T\<close>, and an implicit destructor. \<^verbatim>\<open>deep_ptr<T>\<close> has the one
  member \<^verbatim>\<open>T* ptr_\<close>; its copy constructor is user-provided, constrained by
  \<^verbatim>\<open>is_copy_constructible_v<T>\<close> and not \<^verbatim>\<open>noexcept\<close>; its move constructor and
  destructor are user-provided and \<^verbatim>\<open>noexcept\<close>. Both have \<^verbatim>\<open>operator->\<close>.
\<close>

definition sbo_ptr_traits :: "type_traits \<Rightarrow> type_traits" where
  "sbo_ptr_traits Tt =
     Tt\<lparr>type_name := ''sbo_ptr<'' @ type_name Tt @ ''>'',
        is_raw_pointer := False, has_pointer_traits_to_address := False,
        has_operator_arrow := True, pointee := type_name Tt\<rparr>"

definition deep_ptr_traits :: "type_traits \<Rightarrow> nat \<Rightarrow> nat \<Rightarrow> type_traits" where
  "deep_ptr_traits Tt sizeof_ptr alignof_ptr =
     \<lparr>type_name = ''deep_ptr<'' @ type_name Tt @ ''>'',
      sizeof = sizeof_ptr, alignof = alignof_ptr,
      is_copy_constructible = is_copy_constructible Tt,
      is_nothrow_copy_constructible = False,
      is_trivially_copy_constructible = False,
      is_move_constructible = True,
      is_nothrow_move_constructible = True,
      is_trivially_move_constructible = False,
      is_destructible = True,
      is_nothrow_destructible = True,
      is_trivially_destructible = False,
      is_raw_pointer = False, has_pointer_traits_to_address = False,
      has_operator_arrow = True, pointee = type_name Tt\<rparr>"

fun holder_traits :: "type_traits \<Rightarrow> nat \<Rightarrow> nat \<Rightarrow> holder_type \<Rightarrow> type_traits" where
  "holder_traits Tt sizeof_ptr alignof_ptr sbo_ptr = sbo_ptr_traits Tt"
| "holder_traits Tt sizeof_ptr alignof_ptr deep_ptr = deep_ptr_traits Tt sizeof_ptr alignof_ptr"

text \<open>
  \<^verbatim>\<open>initialize<P>(args...)\<close>: \<^verbatim>\<open>new(ptr_) P(args...); meta_ = &meta_storage<P>;\<close>,
  given what \<^verbatim>\<open>T(args...)\<close> produces.
\<close>

definition initialize :: "holder_type \<Rightarrow> 'v option \<Rightarrow> place \<Rightarrow> 'v machine \<Rightarrow>
    (unit, 'v machine) outcome" where
  "initialize P r this s =
     and_then
       (case P of
          sbo_ptr \<Rightarrow> (case r of None \<Rightarrow> Throws type_exn s | Some v \<Rightarrow> Returns (sbo_bytes v) s)
        | deep_ptr \<Rightarrow> and_then (deep_ptr_ctor r s) (\<lambda>q. Returns (deep_bytes q)))
       (\<lambda>b s1. Returns () (set_meta this (Some P) (set_ptr this b s1)))"

text \<open>
  \<^verbatim>\<open>make_proxy_impl<F, T>(args...)\<close> constructs
  \<^verbatim>\<open>proxy<F>{std::in_place_type<P>, args...}\<close> with \<^verbatim>\<open>P\<close> the embedded holder
  when that is proxiable and the indirect holder otherwise; the constructor requires
  \<^verbatim>\<open>HasPolyConstructor<P, Args...>\<close>: \<^verbatim>\<open>P\<close> proxiable and constructible from
  the arguments (\<open>constructible\<close>: \<^verbatim>\<open>T\<close> is).
\<close>

definition make_proxy_impl :: "facade_type \<Rightarrow> type_traits \<Rightarrow> nat \<Rightarrow> nat \<Rightarrow> bool \<Rightarrow> 'v option \<Rightarrow>
    place \<Rightarrow> 'v machine \<Rightarrow> (unit, 'v machine) outcome" where
  "make_proxy_impl F Tt sizeof_ptr alignof_ptr constructible r this s =
     (let P = (if proxiable (sbo_ptr_traits Tt) F then sbo_ptr else deep_ptr) in
      if proxiable (holder_traits Tt sizeof_ptr alignof_ptr P) F \<and> constructible
      then initialize P r this s
      else Ill_formed)"

text \<open>
  The holder type of an engaged proxy went through that check. Of the check, the model
  of the container needs the three lifetime conjuncts.
\<close>

definition holder_admitted :: "proxiable_ptr_constraints \<Rightarrow> type_traits \<Rightarrow> nat \<Rightarrow> nat \<Rightarrow>
    holder_type \<Rightarrow> bool" where
  "holder_admitted C Tt sizeof_ptr alignof_ptr P =
     (has_copyability (holder_traits Tt sizeof_ptr alignof_ptr P) (copyability C) \<and>
      has_relocatability (holder_traits Tt sizeof_ptr alignof_ptr P) (relocatability C) \<and>
      has_destructibility (holder_traits Tt sizeof_ptr alignof_ptr P) (destructibility C))"

section \<open>Example types and states\<close>

text \<open>
  \<^verbatim>\<open>int\<close>, which is no pointer; a class \<^verbatim>\<open>Circle\<close> of 8 bytes with
  user-provided copy and move constructors, the move one \<^verbatim>\<open>noexcept\<close>; a dispatch
  \<^verbatim>\<open>Draw\<close> with the one signature \<^verbatim>\<open>void()\<close>, invocable on a \<^verbatim>\<open>Circle\<close>;
  a facade without operations and one with \<^verbatim>\<open>Draw\<close>, on a platform with pointers
  of 8 bytes.
\<close>

definition int_traits :: type_traits where
  "int_traits =
     \<lparr>type_name = ''int'', sizeof = 4, alignof = 4,
      is_copy_constructible = True, is_nothrow_copy_constructible = True,
      is_trivially_copy_constructible = True,
      is_move_constructible = True, is_nothrow_move_constructible = True,
      is_trivially_move_constructible = True,
      is_destructible = True, is_nothrow_destructible = True,
      is_trivially_destructible = True,
      is_raw_pointer = False, has_pointer_traits_to_address = False,
      has_operator_arrow = False, pointee = []\<rparr>"

definition circle_traits :: type_traits where
  "circle_traits =
     \<lparr>type_name = ''Circle'', sizeof = 8, alignof = 8,
      is_copy_constructible = True, is_nothrow_copy_constructible = False,
      is_trivially_copy_constructible = False,
      is_move_constructible = True, is_nothrow_move_constructible = True,
      is_trivially_move_constructible = False,
      is_destructible = True, is_nothrow_destructible = True,
      is_trivially_destructible = False,
      is_raw_pointer = False, has_pointer_traits_to_address = False,
      has_operator_arrow = False, pointee = []\<rparr>"

definition draw_dispatch :: dispatch where
  "draw_dispatch =
     \<lparr>dispatch_name = ''Draw'', overload_types = Some [fn_type t_void [] False],
      is_trivially_default_constructible = True,
      is_invocable = (\<lambda>T Args. T = ''Circle'' \<and> Args = []),
      is_nothrow_invocable = (\<lambda>T Args. False)\<rparr>"

definition plain_facade :: facade_type where
  "plain_facade =
     \<lparr>constraints = relocatable_ptr_constraints 8 8, dispatch_types = [],
      reflection_type = None\<rparr>"

definition drawable_facade :: facade_type where
  "drawable_facade =
     \<lparr>constraints = copyable_ptr_constraints 8 8, dispatch_types = [draw_dispatch],
      reflection_type = None\<rparr>"

text \<open>
  A translation unit that includes the header and declares no \<^verbatim>\<open>memcpy\<close> before
  it, and one that includes \<^verbatim>\<open><cstring>\<close> first.
\<close>

definition header_alone :: translation_unit where
  "header_alone = \<lparr>declares_memcpy = False\<rparr>"

definition cstring_first :: translation_unit where
  "cstring_first = \<lparr>declares_memcpy = True\<rparr>"



text \<open>
  A value type over the naturals whose copy and move constructors keep the value, one
  whose copy constructor throws, and one whose move constructor throws.
\<close>

definition regular_type :: "nat value_type" where
  "regular_type = \<lparr>T_copy = Some, T_move = Some\<rparr>"

definition throwing_copy_type :: "nat value_type" where
  "throwing_copy_type = \<lparr>T_copy = (\<lambda>v. None), T_move = Some\<rparr>"


text \<open>
  States: every proxy empty; the proxy at address 0 holding 7 in an embedded holder; the
  proxy at address 0 holding 7 in an indirect holder whose block is at address 0 of the
  free store, with room for \<open>n\<close> more blocks.
\<close>

definition empty_proxy :: "nat proxy" where
  "empty_proxy = \<lparr>proxy_meta = None, proxy_ptr = indeterminate\<rparr>"

definition no_objects :: "place \<Rightarrow> nat proxy" where
  "no_objects a = empty_proxy"

definition embedded_state :: "nat machine" where
  "embedded_state =
     \<lparr>objects = no_objects(object 0 := \<lparr>proxy_meta = Some sbo_ptr, proxy_ptr = sbo_bytes 7\<rparr>),
      heap = [], allocations_left = 1, calls = []\<rparr>"

definition indirect_state :: "nat \<Rightarrow> nat machine" where
  "indirect_state n =
     \<lparr>objects = no_objects(object 0 := \<lparr>proxy_meta = Some deep_ptr, proxy_ptr = deep_bytes (Some 0)\<rparr>),
      heap = [Some 7], allocations_left = n, calls = []\<rparr>"


text \<open>
  A proxy that a move constructor can take its content from: it is empty, or its table
  matches the holder in its buffer, the block of an indirect holder is there, and the
  move constructor of \<^verbatim>\<open>T\<close> gives the value it is given.
\<close>

definition swappable :: "'v value_type \<Rightarrow> 'v machine \<Rightarrow> place \<Rightarrow> bool" where
  "swappable T s a =
     (proxy_meta (objects s a) = None \<or>
      (\<exists>v. held_value s a = Some v \<and>
           (proxy_meta (objects s a) = Some sbo_ptr \<longrightarrow> T_move T v = Some v)))"



text \<open>The state in which a call that returns ends, if it returns.\<close>

fun final_state :: "('a, 's) outcome \<Rightarrow> 's option" where
  "final_state (Returns a s) = Some s"
| "final_state m = None"




section \<open>Properties\<close>

subsection \<open>The lifetime entries of a table\<close>

lemmas lifetime_defs = basic_meta_def entry_present_def copyability_meta_def relocatability_meta_def
      destructibility_meta_def lifetime_meta_def requires_lifetime_meta_def level_lt_def level_ge_def

text \<open>
  Claim C6, as the code has it. The table of a facade holds a copy entry exactly when
  \<open>copyability\<close> is \<open>nontrivial\<close> or \<open>nothrow\<close>, a move entry exactly when
  \<open>relocatability\<close> is \<open>nontrivial\<close> or \<open>nothrow\<close>, and a destroy entry exactly when
  \<open>destructibility\<close> is \<open>nontrivial\<close> or \<open>nothrow\<close>; the copy entry, when there is
  one, is in the table and its dispatcher is \<^verbatim>\<open>noexcept\<close> exactly when
  \<open>copyability\<close> is at least \<open>nothrow\<close>.
\<close>

theorem C6_lifetime_entries:
  "(entry_present copyability_meta_provider (basic_meta C R) =
      (copyability C = nontrivial \<or> copyability C = nothrow)) \<and>
   (entry_present relocatability_meta_provider (basic_meta C R) =
      (relocatability C = nontrivial \<or> relocatability C = nothrow)) \<and>
   (entry_present destructibility_meta_provider (basic_meta C R) =
      (destructibility C = nontrivial \<or> destructibility C = nothrow)) \<and>
   (\<forall>m. copyability_meta C = Some m \<longrightarrow>
      m \<in> set (basic_meta C R) \<and> is_entry_of copyability_meta_provider m \<and>
      entry_noexcept m = Some (level_ge (copyability C) nothrow))"
  by (cases "copyability C"; cases "relocatability C"; cases "destructibility C"; cases R)
     (simp_all add: lifetime_defs)

theorem C6_lifetime_entries_witness:
  "entry_present copyability_meta_provider (basic_meta (copyable_ptr_constraints 8 8) None) \<and>
   copyability_meta (copyable_ptr_constraints 8 8) =
     Some (lifetime_meta_impl copyability_meta_provider nontrivial) \<and>
   entry_noexcept (lifetime_meta_impl copyability_meta_provider nontrivial) = Some False"
  using C6_lifetime_entries [of "copyable_ptr_constraints 8 8" None]
  by (simp add: copyable_ptr_constraints_def copyability_meta_def lifetime_meta_def
      requires_lifetime_meta_def level_lt_def level_ge_def)

text \<open>
  Claim C6 as stated has the copy entry present whenever \<open>copyability\<close> is above
  \<open>none\<close>. For the trivial bundle \<open>copyability\<close> is \<open>trivial\<close>, above \<open>none\<close>,
  and the table holds no copy entry.
\<close>

theorem C6_trivial_copy_counterexample:
  "level_lt none (copyability (trivial_ptr_constraints 8 8)) \<and>
   \<not> entry_present copyability_meta_provider (basic_meta (trivial_ptr_constraints 8 8) None)"
  by (simp add: trivial_ptr_constraints_def lifetime_defs)

subsection \<open>The admissibility check\<close>

lemma facade_dispatch:
  assumes "facade F" "D \<in> set (dispatch_types F)"
  shows "\<exists>Os. overload_types D = Some Os \<and> list_all overload_traits_applicable Os"
  using assms
  by (auto simp: facade_def facade_traits_applicable_def list_all_iff
      dispatch_traits_applicable_def split: option.splits)

lemma overload_applicable_ptr_cases:
  "overload_applicable_ptr D P O' =
     (overload_traits_applicable O' \<and>
      (\<forall>R Args. (O' = fn_type R Args False \<longrightarrow> is_invocable D (pointee P) Args) \<and>
                 (O' = fn_type R Args True \<longrightarrow> is_nothrow_invocable D (pointee P) Args)))"
  by (cases O') auto

text \<open>
  Claim C1, as the code has it. For a facade \<open>F\<close> and a candidate type \<open>P\<close>,
  \<open>proxiable P F\<close> holds exactly when \<open>P\<close> is pointer-like
  (\<^verbatim>\<open>ptr_traits<P>::applicable\<close>), its size and alignment are within the bounds of
  \<open>F\<close>, its copy, move-and-destroy and destroy capabilities meet the three levels of
  \<open>F\<close>, every dispatch of \<open>F\<close> is invocable on the dereferenced \<open>P\<close> with the
  arguments of each of its signatures (without throwing, for a \<^verbatim>\<open>noexcept\<close>
  signature), and the reflection type of \<open>F\<close>, if there is one, is constructible from
  \<^verbatim>\<open>std::in_place_type_t<P>\<close>. The check is a function to \<open>bool\<close>: it has no effect.
\<close>

theorem C1_proxiable_iff:
  assumes "facade F"
  shows "proxiable P F \<longleftrightarrow>
     (ptr_traits_applicable P \<and>
      sizeof P \<le> max_size (constraints F) \<and>
      alignof P \<le> max_align (constraints F) \<and>
      has_copyability P (copyability (constraints F)) \<and>
      has_relocatability P (relocatability (constraints F)) \<and>
      has_destructibility P (destructibility (constraints F)) \<and>
      (\<forall>D \<in> set (dispatch_types F). \<forall>Os R Args. overload_types D = Some Os \<longrightarrow>
         (fn_type R Args False \<in> set Os \<longrightarrow> is_invocable D (pointee P) Args) \<and>
         (fn_type R Args True \<in> set Os \<longrightarrow> is_nothrow_invocable D (pointee P) Args)) \<and>
      (\<forall>R. reflection_type F = Some R \<longrightarrow>
         is_constructible_from_in_place_type R (type_name P)))"
proof -
  have ops: "list_all (\<lambda>D. dispatch_applicable_ptr D P) (dispatch_types F) \<longleftrightarrow>
      (\<forall>D \<in> set (dispatch_types F). \<forall>Os R Args. overload_types D = Some Os \<longrightarrow>
         (fn_type R Args False \<in> set Os \<longrightarrow> is_invocable D (pointee P) Args) \<and>
         (fn_type R Args True \<in> set Os \<longrightarrow> is_nothrow_invocable D (pointee P) Args))"
    (is "?L \<longleftrightarrow> ?R")
  proof
    assume l: ?L
    show ?R
    proof (intro ballI allI impI conjI)
      fix D Os R Args
      assume d: "D \<in> set (dispatch_types F)" and os: "overload_types D = Some Os"
      from l d os have all: "\<forall>O' \<in> set Os. overload_applicable_ptr D P O'"
        by (fastforce simp: list_all_iff dispatch_applicable_ptr_def)
      show "is_invocable D (pointee P) Args" if "fn_type R Args False \<in> set Os"
        using all that by fastforce
      show "is_nothrow_invocable D (pointee P) Args" if "fn_type R Args True \<in> set Os"
        using all that by fastforce
    qed
  next
    assume r: ?R
    show ?L
      unfolding list_all_iff
    proof
      fix D assume d: "D \<in> set (dispatch_types F)"
      from facade_dispatch [OF assms d] obtain Os where os: "overload_types D = Some Os"
        and fn: "list_all overload_traits_applicable Os"
        by blast
      have "overload_applicable_ptr D P O'" if "O' \<in> set Os" for O'
        unfolding overload_applicable_ptr_cases using that fn r d os
        by (auto simp: list_all_iff)
      then show "dispatch_applicable_ptr D P"
        by (simp add: dispatch_applicable_ptr_def list_all_iff os)
    qed
  qed
  have refl: "(case reflection_type F of None \<Rightarrow> True
        | Some R \<Rightarrow> is_constructible_from_in_place_type R (type_name P)) \<longleftrightarrow>
      (\<forall>R. reflection_type F = Some R \<longrightarrow> is_constructible_from_in_place_type R (type_name P))"
    by (simp split: option.splits)
  show ?thesis
    unfolding proxiable_def applicable_ptr_def ops refl using assms by blast
qed

lemma drawable_facade_ok: "facade drawable_facade"
  by (simp add: facade_def basic_facade_def facade_traits_applicable_def drawable_facade_def
      copyable_ptr_constraints_def dispatch_traits_applicable_def draw_dispatch_def)

theorem C1_proxiable_iff_witness:
  "facade drawable_facade \<and> proxiable (sbo_ptr_traits circle_traits) drawable_facade"
proof -
  have "proxiable (sbo_ptr_traits circle_traits) drawable_facade"
    unfolding C1_proxiable_iff [OF drawable_facade_ok]
    by (simp add: drawable_facade_def copyable_ptr_constraints_def draw_dispatch_def
        sbo_ptr_traits_def circle_traits_def ptr_traits_applicable_def)
  with drawable_facade_ok show ?thesis by simp
qed

text \<open>
  Claim C1 as stated lists the conditions without the first one. \<^verbatim>\<open>int\<close> meets all
  the listed conditions for the facade without operations, and is not proxiable: it is
  no pointer.
\<close>

theorem C1_not_a_pointer_counterexample:
  "facade plain_facade \<and>
   sizeof int_traits \<le> max_size (constraints plain_facade) \<and>
   alignof int_traits \<le> max_align (constraints plain_facade) \<and>
   has_copyability int_traits (copyability (constraints plain_facade)) \<and>
   has_relocatability int_traits (relocatability (constraints plain_facade)) \<and>
   has_destructibility int_traits (destructibility (constraints plain_facade)) \<and>
   dispatch_types plain_facade = [] \<and>
   reflection_type plain_facade = None \<and>
   \<not> proxiable int_traits plain_facade"
  by (simp add: facade_def basic_facade_def facade_traits_applicable_def plain_facade_def
      relocatable_ptr_constraints_def int_traits_def proxiable_def ptr_traits_applicable_def)

subsection \<open>The indirect holder\<close>

lemma heap_lookup_append [simp]:
  "heap_lookup (h @ [x]) p = (if p = length h then x else heap_lookup h p)"
  by (auto simp: heap_lookup_def nth_append)

lemma heap_lookup_update [simp]:
  "heap_lookup (h[a := x]) p = (if p = a \<and> a < length h then x else heap_lookup h p)"
  by (auto simp: heap_lookup_def)

lemma heap_lookup_Some_less: "heap_lookup h p = Some v \<Longrightarrow> p < length h"
  by (auto simp: heap_lookup_def split: if_splits)

lemma heap_lookup_length [simp]: "heap_lookup h (length h) = None"
  by (simp add: heap_lookup_def)

text \<open>
  Claim C9. Copying a \<^verbatim>\<open>deep_ptr\<close> that owns the block \<open>p\<close> holding \<open>v\<close>, when
  the copy constructor of \<^verbatim>\<open>T\<close> gives \<open>v'\<close> and a block can be allocated, returns
  a \<^verbatim>\<open>deep_ptr\<close> that owns a block \<open>q\<close> at another address, not allocated before,
  that holds \<open>v'\<close>, while \<open>p\<close> still holds \<open>v\<close>; copying a disengaged one gives a
  disengaged one; moving gives the new object the pointer and leaves \<^verbatim>\<open>nullptr\<close> in
  the source; the destructor of an engaged one releases its block and no other, and the
  destructor of a disengaged one does nothing.
\<close>

theorem C9_deep_ptr:
  "(heap_lookup (heap s) p = Some v \<longrightarrow> T_copy T v = Some v' \<longrightarrow> 0 < allocations_left s \<longrightarrow>
      (\<exists>q s'. deep_ptr_copy T (Some p) s = Returns (Some q) s' \<and> q \<noteq> p \<and>
         heap_lookup (heap s) q = None \<and> heap_lookup (heap s') q = Some v' \<and>
         heap_lookup (heap s') p = Some v \<and> objects s' = objects s)) \<and>
   deep_ptr_copy T None s = Returns None s \<and>
   deep_ptr_move rhs = (rhs, None) \<and>
   (heap_lookup (heap s) p = Some v \<longrightarrow>
      (\<exists>s'. deep_ptr_dtor (Some p) s = Returns () s' \<and> heap_lookup (heap s') p = None \<and>
         (\<forall>q. q \<noteq> p \<longrightarrow> heap_lookup (heap s') q = heap_lookup (heap s) q) \<and>
         objects s' = objects s)) \<and>
   deep_ptr_dtor None s = Returns () s"
proof -
  have copy: "\<exists>q s'. deep_ptr_copy T (Some p) s = Returns (Some q) s' \<and> q \<noteq> p \<and>
         heap_lookup (heap s) q = None \<and> heap_lookup (heap s') q = Some v' \<and>
         heap_lookup (heap s') p = Some v \<and> objects s' = objects s"
    if "heap_lookup (heap s) p = Some v" "T_copy T v = Some v'" "0 < allocations_left s"
    using that heap_lookup_Some_less [OF that(1)]
    by (simp add: deep_ptr_copy_def new_expr_def)
  have dtor: "\<exists>s'. deep_ptr_dtor (Some p) s = Returns () s' \<and> heap_lookup (heap s') p = None \<and>
         (\<forall>q. q \<noteq> p \<longrightarrow> heap_lookup (heap s') q = heap_lookup (heap s) q) \<and>
         objects s' = objects s"
    if "heap_lookup (heap s) p = Some v"
    using that heap_lookup_Some_less [OF that]
    by (simp add: deep_ptr_dtor_def delete_expr_def)
  show ?thesis
    using copy dtor by (simp add: deep_ptr_copy_def deep_ptr_move_def deep_ptr_dtor_def delete_expr_def)
qed

theorem C9_deep_ptr_witness:
  "heap_lookup (heap (indirect_state 1)) 0 = Some 7 \<and> T_copy regular_type 7 = Some 7 \<and>
   0 < allocations_left (indirect_state 1) \<and>
   (\<exists>q s'. deep_ptr_copy regular_type (Some 0) (indirect_state 1) = Returns (Some q) s' \<and> q \<noteq> 0 \<and>
      heap_lookup (heap s') q = Some 7 \<and> heap_lookup (heap s') 0 = Some 7) \<and>
   (\<exists>s'. deep_ptr_dtor (Some 0) (indirect_state 1) = Returns () s' \<and>
      heap_lookup (heap s') 0 = None)"
proof -
  have h: "heap_lookup (heap (indirect_state 1)) 0 = Some 7"
    "T_copy regular_type 7 = Some 7" "0 < allocations_left (indirect_state 1)"
    by (simp_all add: indirect_state_def regular_type_def heap_lookup_def)
  from C9_deep_ptr [of "indirect_state 1" 0 7 regular_type 7 None] h show ?thesis
    by blast
qed

subsection \<open>Basic facts about the machine state\<close>

lemma set_meta_simps [simp]:
  "objects (set_meta a m s) = (objects s)(a := (objects s a)\<lparr>proxy_meta := m\<rparr>)"
  "heap (set_meta a m s) = heap s"
  "allocations_left (set_meta a m s) = allocations_left s"
  "calls (set_meta a m s) = calls s"
  by (simp_all add: set_meta_def)

lemma set_ptr_simps [simp]:
  "objects (set_ptr a b s) = (objects s)(a := (objects s a)\<lparr>proxy_ptr := b\<rparr>)"
  "heap (set_ptr a b s) = heap s"
  "allocations_left (set_ptr a b s) = allocations_left s"
  "calls (set_ptr a b s) = calls s"
  by (simp_all add: set_ptr_def)

lemma record_call_simps [simp]:
  "objects (record_call c s) = objects s"
  "heap (record_call c s) = heap s"
  "allocations_left (record_call c s) = allocations_left s"
  "calls (record_call c s) = calls s @ [c]"
  by (simp_all add: record_call_def)

lemmas capability_defs = HasTrivialCopyConstructor_def HasNothrowCopyConstructor_def
  HasCopyConstructor_def HasNothrowMoveConstructor_def HasMoveConstructor_def
  HasTrivialDestructor_def HasNothrowDestructor_def HasDestructor_def
  HasTrivialCopyAssignment_def HasNothrowCopyAssignment_def HasCopyAssignment_def
  HasNothrowMoveAssignment_def HasMoveAssignment_def level_ge_def

lemmas entry_defs = copyability_meta_def relocatability_meta_def destructibility_meta_def
  lifetime_meta_def requires_lifetime_meta_def level_lt_def

lemma held_value_cases:
  "held_value s a = Some v \<longleftrightarrow>
     (proxy_meta (objects s a) = Some sbo_ptr \<and> proxy_ptr (objects s a) = sbo_bytes v) \<or>
     (\<exists>p. proxy_meta (objects s a) = Some deep_ptr \<and> proxy_ptr (objects s a) = deep_bytes (Some p) \<and>
          heap_lookup (heap s) p = Some v)"
proof (cases "proxy_meta (objects s a)")
  case None
  then show ?thesis by (simp add: held_value_def)
next
  case (Some P)
  then show ?thesis
    by (cases P; cases "proxy_ptr (objects s a)") (auto simp: held_value_def elim: holder_value.elims)
qed

subsection \<open>Overload resolution\<close>





















subsection \<open>Copy construction\<close>

lemma copyable_cases:
  assumes "HasCopyConstructor C"
  obtains "copyability C = trivial" | "copyability C = nothrow" | "copyability C = nontrivial"
  using assms by (cases "copyability C") (simp_all add: capability_defs)

lemma copy_ctor_trivial:
  assumes "copyability C = trivial"
  shows "proxy_copy_ctor C T b a s = Returns () (s\<lparr>objects := (objects s)(b := objects s a)\<rparr>)"
  using assms by (simp add: proxy_copy_ctor_def capability_defs)

lemma copy_ctor_empty:
  assumes "HasCopyConstructor C" "copyability C \<noteq> trivial" "proxy_meta (objects s a) = None"
  shows "proxy_copy_ctor C T b a s = Returns () (set_meta b None s)"
  using assms
  by (cases "HasNothrowCopyConstructor C") (simp_all add: proxy_copy_ctor_def HasTrivialCopyConstructor_def)

lemma copy_ctor_sbo:
  assumes "HasCopyConstructor C" "copyability C \<noteq> trivial" "b \<noteq> a"
    "proxy_meta (objects s a) = Some sbo_ptr" "proxy_ptr (objects s a) = sbo_bytes v"
    "T_copy T v = Some v'"
  shows "proxy_copy_ctor C T b a s =
    Returns () (set_meta b (Some sbo_ptr)
      (set_ptr b (sbo_bytes v') (record_call (copy_entry sbo_ptr) s)))"
  using assms(1)
proof (cases rule: copyable_cases)
  case 1
  with assms show ?thesis by simp
next
  case 2
  with assms show ?thesis
    by (simp add: proxy_copy_ctor_def capability_defs entry_defs copyability_dispatcher_def
        sbo_ptr_copy_def)
next
  case 3
  with assms show ?thesis
    by (simp add: proxy_copy_ctor_def capability_defs entry_defs copyability_dispatcher_def
        sbo_ptr_copy_def)
qed

lemma copy_ctor_deep:
  assumes "HasCopyConstructor C" "copyability C \<noteq> trivial" "b \<noteq> a"
    "proxy_meta (objects s a) = Some deep_ptr" "proxy_ptr (objects s a) = deep_bytes (Some p)"
    "heap_lookup (heap s) p = Some v" "T_copy T v = Some v'" "0 < allocations_left s"
  shows "proxy_copy_ctor C T b a s =
    Returns () (set_meta b (Some deep_ptr)
      (set_ptr b (deep_bytes (Some (length (heap s))))
         ((record_call (copy_entry deep_ptr) s)
            \<lparr>heap := heap s @ [Some v'], allocations_left := allocations_left s - 1\<rparr>)))"
  using assms(1)
proof (cases rule: copyable_cases)
  case 1
  with assms show ?thesis by simp
next
  case 2
  with assms show ?thesis
    by (simp add: proxy_copy_ctor_def capability_defs entry_defs copyability_dispatcher_def
        deep_ptr_copy_def new_expr_def)
next
  case 3
  with assms show ?thesis
    by (simp add: proxy_copy_ctor_def capability_defs entry_defs copyability_dispatcher_def
        deep_ptr_copy_def new_expr_def)
qed

text \<open>
  Claim C3, as the code has it. Let \<open>F\<close> have a copy constructor, and let the proxy at
  \<open>a\<close> be engaged with the value \<open>v\<close>. When \<open>copyability\<close> is \<open>nontrivial\<close> or
  \<open>nothrow\<close>, copy construction of \<open>b\<close> from \<open>a\<close> calls exactly the copy entry of
  the table of \<open>a\<close>, which constructs in the buffer of \<open>b\<close> a holder of the type of
  that of \<open>a\<close> with the value \<open>v'\<close> that the copy constructor of \<^verbatim>\<open>T\<close> gives
  (it returns when that constructor does and, for an indirect holder, a block can be
  allocated). When \<open>copyability\<close> is \<open>trivial\<close> no entry is called: \<open>b\<close> gets the
  members of \<open>a\<close> as they are. In both cases \<open>b\<close> has the very table of \<open>a\<close> and
  \<open>a\<close> is as before. Copy construction from an empty proxy gives an empty proxy.
\<close>

theorem C3_copy_construct:
  assumes "HasCopyConstructor C" and "b \<noteq> a"
  shows "(held_value s a = Some v \<longrightarrow>
            (copyability C = trivial \<or>
             T_copy T v = Some v' \<and>
             (proxy_meta (objects s a) = Some deep_ptr \<longrightarrow> 0 < allocations_left s)) \<longrightarrow>
            (\<exists>s'. proxy_copy_ctor C T b a s = Returns () s' \<and>
               has_value s' b \<and> proxy_meta (objects s' b) = proxy_meta (objects s a) \<and>
               objects s' a = objects s a \<and> held_value s' a = Some v \<and>
               (copyability C \<noteq> trivial \<longrightarrow>
                  (\<exists>P. proxy_meta (objects s a) = Some P \<and> calls s' = calls s @ [copy_entry P]) \<and>
                  held_value s' b = Some v') \<and>
               (copyability C = trivial \<longrightarrow>
                  copyability_meta C = None \<and>
                  calls s' = calls s \<and> objects s' b = objects s a \<and> heap s' = heap s \<and>
                  held_value s' b = Some v))) \<and>
         (\<not> has_value s a \<longrightarrow>
            (\<exists>s'. proxy_copy_ctor C T b a s = Returns () s' \<and> \<not> has_value s' b))"
proof (intro conjI impI)
  assume "\<not> has_value s a"
  then show "\<exists>s'. proxy_copy_ctor C T b a s = Returns () s' \<and> \<not> has_value s' b"
    using assms
    by (cases "copyability C = trivial") (simp_all add: copy_ctor_trivial copy_ctor_empty has_value_def)
next
  assume v: "held_value s a = Some v"
    and m: "copyability C = trivial \<or>
             T_copy T v = Some v' \<and>
             (proxy_meta (objects s a) = Some deep_ptr \<longrightarrow> 0 < allocations_left s)"
  let ?goal = "\<exists>s'. proxy_copy_ctor C T b a s = Returns () s' \<and>
               has_value s' b \<and> proxy_meta (objects s' b) = proxy_meta (objects s a) \<and>
               objects s' a = objects s a \<and> held_value s' a = Some v \<and>
               (copyability C \<noteq> trivial \<longrightarrow>
                  (\<exists>P. proxy_meta (objects s a) = Some P \<and> calls s' = calls s @ [copy_entry P]) \<and>
                  held_value s' b = Some v') \<and>
               (copyability C = trivial \<longrightarrow>
                  copyability_meta C = None \<and>
                  calls s' = calls s \<and> objects s' b = objects s a \<and> heap s' = heap s \<and>
                  held_value s' b = Some v)"
  show ?goal
  proof (cases "copyability C = trivial")
    case True
    from v have "has_value s a" by (auto simp: held_value_def has_value_def split: option.splits)
    with v True assms(2) show ?thesis
      by (auto simp: copy_ctor_trivial has_value_def held_value_def entry_defs)
  next
    case False
    with m have c: "T_copy T v = Some v'"
      and al: "proxy_meta (objects s a) = Some deep_ptr \<longrightarrow> 0 < allocations_left s"
      by simp_all
    from v consider (sbo) "proxy_meta (objects s a) = Some sbo_ptr" "proxy_ptr (objects s a) = sbo_bytes v"
      | (deep) p where "proxy_meta (objects s a) = Some deep_ptr"
          "proxy_ptr (objects s a) = deep_bytes (Some p)" "heap_lookup (heap s) p = Some v"
      unfolding held_value_cases by blast
    then show ?thesis
    proof cases
      case sbo
      from copy_ctor_sbo [OF assms(1) False assms(2) sbo c] sbo assms False show ?thesis
        by (simp add: has_value_def held_value_def)
    next
      case deep
      with al have "0 < allocations_left s" by simp
      from copy_ctor_deep [OF assms(1) False assms(2) deep c this] deep assms False
        heap_lookup_Some_less [OF deep(3)]
      show ?thesis
        by (simp add: has_value_def held_value_def)
    qed
  qed
qed

theorem C3_copy_construct_witness:
  "HasCopyConstructor (copyable_ptr_constraints 8 8) \<and> object 1 \<noteq> object 0 \<and>
   held_value (indirect_state 1) (object 0) = Some 7 \<and> T_copy regular_type 7 = Some 7 \<and>
   0 < allocations_left (indirect_state 1) \<and>
   (\<exists>s'. proxy_copy_ctor (copyable_ptr_constraints 8 8) regular_type (object 1) (object 0)
            (indirect_state 1) = Returns () s' \<and>
      proxy_meta (objects s' (object 1)) = Some deep_ptr \<and>
      calls s' = [copy_entry deep_ptr] \<and> held_value s' (object 1) = Some 7) \<and>
   \<not> has_value (indirect_state 1) (object 2) \<and>
   (\<exists>s'. proxy_copy_ctor (copyable_ptr_constraints 8 8) regular_type (object 1) (object 2)
            (indirect_state 1) = Returns () s' \<and> \<not> has_value s' (object 1))"
proof -
  have h: "HasCopyConstructor (copyable_ptr_constraints 8 8)"
    "copyability (copyable_ptr_constraints 8 8) \<noteq> trivial"
    by (simp_all add: copyable_ptr_constraints_def capability_defs)
  have v: "held_value (indirect_state 1) (object 0) = Some 7" "T_copy regular_type 7 = Some 7"
    "\<not> has_value (indirect_state 1) (object 2)" "0 < allocations_left (indirect_state 1)"
    "proxy_meta (objects (indirect_state 1) (object 0)) = Some deep_ptr"
    "calls (indirect_state 1) = []"
    by (simp_all add: indirect_state_def held_value_def regular_type_def has_value_def
        no_objects_def empty_proxy_def heap_lookup_def)
  have d: "object 1 \<noteq> object 0" "object 1 \<noteq> object 2" by simp_all
  from C3_copy_construct [OF h(1) d(1), of "indirect_state 1" 7 regular_type 7]
    C3_copy_construct [OF h(1) d(2), of "indirect_state 1" 7 regular_type 7] h v d
  show ?thesis by (simp add: ) blast
qed

text \<open>
  Claim C3 as stated has every copy construction for a copyable facade use the copy
  entry of the source table. For the trivial bundle the proxy at address 0 is copied
  with no entry called; its table has no copy entry.
\<close>

theorem C3_trivial_copy_counterexample:
  "HasCopyConstructor (trivial_ptr_constraints 8 8) \<and>
   held_value embedded_state (object 0) = Some 7 \<and>
   calls embedded_state = [] \<and>
   map_option calls (final_state (proxy_copy_ctor (trivial_ptr_constraints 8 8) regular_type
      (object 1) (object 0) embedded_state)) = Some [] \<and>
   copyability_meta (trivial_ptr_constraints 8 8) = None \<and>
   \<not> entry_present copyability_meta_provider (basic_meta (trivial_ptr_constraints 8 8) None)"
  by (simp add: trivial_ptr_constraints_def capability_defs proxy_copy_ctor_def
      embedded_state_def held_value_def lifetime_defs)

subsection \<open>Move construction\<close>

lemma relocatable_cases:
  assumes "HasMoveConstructor C"
  obtains "relocatability C = trivial" | "relocatability C = nothrow"
    | "relocatability C = nontrivial"
  using assms by (cases "relocatability C") (simp_all add: capability_defs)

lemma move_ctor_empty:
  assumes "HasMoveConstructor C" "\<not> memcpy_missing U C" "proxy_meta (objects s a) = None"
  shows "proxy_move_ctor U C T b a s = Returns () (set_meta b None s)"
  using assms by (cases "HasNothrowMoveConstructor C") (simp_all add: proxy_move_ctor_def)

lemma move_ctor_trivial:
  assumes "relocatability C = trivial" "declares_memcpy U" "proxy_meta (objects s a) = Some P"
  shows "proxy_move_ctor U C T b a s =
    Returns () (set_meta a None (set_meta b (proxy_meta (objects (set_ptr b (proxy_ptr (objects s a)) s) a))
       (set_ptr b (proxy_ptr (objects s a)) s)))"
  using assms by (simp add: proxy_move_ctor_def capability_defs memcpy_missing_def)

lemma move_ctor_sbo:
  assumes "HasMoveConstructor C" "relocatability C \<noteq> trivial" "b \<noteq> a"
    "proxy_meta (objects s a) = Some sbo_ptr" "proxy_ptr (objects s a) = sbo_bytes v"
    "T_move T v = Some v'"
  shows "proxy_move_ctor U C T b a s =
    Returns () (set_meta a None (set_meta b (Some sbo_ptr)
      (set_ptr a indeterminate (set_ptr b (sbo_bytes v') (record_call (move_entry sbo_ptr) s)))))"
  using assms(1) 
proof (cases rule: relocatable_cases)
  case 1
  with assms show ?thesis by simp
next
  case 2
  with assms show ?thesis
    by (simp add: proxy_move_ctor_def capability_defs entry_defs relocatability_dispatcher_def
        sbo_ptr_move_def memcpy_missing_def)
next
  case 3
  with assms show ?thesis
    by (simp add: proxy_move_ctor_def capability_defs entry_defs relocatability_dispatcher_def
        sbo_ptr_move_def memcpy_missing_def)
qed

lemma move_ctor_deep:
  assumes "HasMoveConstructor C" "relocatability C \<noteq> trivial" "b \<noteq> a"
    "proxy_meta (objects s a) = Some deep_ptr" "proxy_ptr (objects s a) = deep_bytes q"
  shows "proxy_move_ctor U C T b a s =
    Returns () (set_meta a None (set_meta b (Some deep_ptr)
      (set_ptr a indeterminate (set_ptr b (deep_bytes q) (record_call (move_entry deep_ptr) s)))))"
  using assms(1) 
proof (cases rule: relocatable_cases)
  case 1
  with assms show ?thesis by simp
next
  case 2
  with assms show ?thesis
    by (simp add: proxy_move_ctor_def capability_defs entry_defs relocatability_dispatcher_def
        deep_ptr_move_def deep_ptr_dtor_def delete_expr_def memcpy_missing_def)
next
  case 3
  with assms show ?thesis
    by (simp add: proxy_move_ctor_def capability_defs entry_defs relocatability_dispatcher_def
        deep_ptr_move_def deep_ptr_dtor_def delete_expr_def memcpy_missing_def)
qed

text \<open>
  Where the body of the move constructor compiles (relocation is not trivial, or a
  declaration of \<^verbatim>\<open>memcpy\<close> is visible), move construction does what is expected
  of it. Let \<open>F\<close> have a move constructor, and let the proxy at \<open>a\<close> be engaged with
  the value \<open>v\<close>. Move construction of another proxy \<open>b\<close> from \<open>a\<close> returns;
  afterwards \<open>a\<close> has no value and \<open>b\<close> is engaged with the table of \<open>a\<close> and holds
  \<open>v\<close>. When relocation is trivial the buffer of \<open>b\<close> is that of \<open>a\<close> byte for
  byte and no entry is called; otherwise exactly the move entry of the table of \<open>a\<close> is
  called, and it leaves the holder of \<open>a\<close> destroyed. Where the move entry runs the
  move constructor of \<^verbatim>\<open>T\<close> (an embedded holder), that constructor is taken to give
  the value it is given. Move construction from an empty proxy gives an empty proxy.
\<close>

lemma move_construct_where_it_compiles:
  assumes "HasMoveConstructor C" and "\<not> memcpy_missing U C" and "b \<noteq> a"
  shows "(held_value s a = Some v \<longrightarrow>
            (relocatability C = trivial \<or> proxy_meta (objects s a) = Some deep_ptr \<or>
             T_move T v = Some v) \<longrightarrow>
            (\<exists>s'. proxy_move_ctor U C T b a s = Returns () s' \<and>
               \<not> has_value s' a \<and> has_value s' b \<and> held_value s' b = Some v \<and>
               proxy_meta (objects s' b) = proxy_meta (objects s a) \<and>
               (relocatability C = trivial \<longrightarrow>
                  calls s' = calls s \<and> heap s' = heap s \<and>
                  proxy_ptr (objects s' b) = proxy_ptr (objects s a)) \<and>
               (relocatability C \<noteq> trivial \<longrightarrow>
                  (\<exists>P. proxy_meta (objects s a) = Some P \<and> calls s' = calls s @ [move_entry P]) \<and>
                  proxy_ptr (objects s' a) = indeterminate))) \<and>
         (\<not> has_value s a \<longrightarrow>
            (\<exists>s'. proxy_move_ctor U C T b a s = Returns () s' \<and>
               \<not> has_value s' b \<and> \<not> has_value s' a))"
proof (intro conjI impI)
  assume "\<not> has_value s a"
  then show "\<exists>s'. proxy_move_ctor U C T b a s = Returns () s' \<and> \<not> has_value s' b \<and> \<not> has_value s' a"
    using assms by (simp add: move_ctor_empty has_value_def)
next
  assume v: "held_value s a = Some v"
    and m: "relocatability C = trivial \<or> proxy_meta (objects s a) = Some deep_ptr \<or>
      T_move T v = Some v"
  let ?goal = "\<exists>s'. proxy_move_ctor U C T b a s = Returns () s' \<and>
               \<not> has_value s' a \<and> has_value s' b \<and> held_value s' b = Some v \<and>
               proxy_meta (objects s' b) = proxy_meta (objects s a) \<and>
               (relocatability C = trivial \<longrightarrow>
                  calls s' = calls s \<and> heap s' = heap s \<and>
                  proxy_ptr (objects s' b) = proxy_ptr (objects s a)) \<and>
               (relocatability C \<noteq> trivial \<longrightarrow>
                  (\<exists>P. proxy_meta (objects s a) = Some P \<and> calls s' = calls s @ [move_entry P]) \<and>
                  proxy_ptr (objects s' a) = indeterminate)"
  have dm: "declares_memcpy U" if "relocatability C = trivial"
    using that assms(2) by (simp add: memcpy_missing_def)
  from v consider (sbo) "proxy_meta (objects s a) = Some sbo_ptr" "proxy_ptr (objects s a) = sbo_bytes v"
    | (deep) p where "proxy_meta (objects s a) = Some deep_ptr"
        "proxy_ptr (objects s a) = deep_bytes (Some p)" "heap_lookup (heap s) p = Some v"
    unfolding held_value_cases by blast
  then show ?goal
  proof cases
    case sbo
    show ?thesis
    proof (cases "relocatability C = trivial")
      case True
      with sbo assms dm show ?thesis
        by (simp add: move_ctor_trivial has_value_def held_value_def)
    next
      case False
      with m sbo have "T_move T v = Some v" by simp
      from move_ctor_sbo [OF assms(1) False assms(3) sbo this] sbo assms False show ?thesis
        by (simp add: has_value_def held_value_def)
    qed
  next
    case deep
    show ?thesis
    proof (cases "relocatability C = trivial")
      case True
      with deep assms dm show ?thesis
        by (simp add: move_ctor_trivial has_value_def held_value_def)
    next
      case False
      from move_ctor_deep [OF assms(1) False assms(3) deep(1,2)] deep assms False show ?thesis
        by (simp add: has_value_def held_value_def)
    qed
  qed
qed

lemma move_construct_with_cstring:
  "proxy_move_ctor cstring_first (trivial_ptr_constraints 8 8) regular_type (object 1) (object 0)
     embedded_state =
   Returns () (embedded_state\<lparr>objects := no_objects
     (object 1 := \<lparr>proxy_meta = Some sbo_ptr, proxy_ptr = sbo_bytes 7\<rparr>,
      object 0 := \<lparr>proxy_meta = None, proxy_ptr = sbo_bytes 7\<rparr>)\<rparr>)"
  by (simp add: proxy_move_ctor_def memcpy_missing_def cstring_first_def
      trivial_ptr_constraints_def capability_defs embedded_state_def set_meta_def set_ptr_def
      no_objects_def empty_proxy_def fun_upd_twist)

text \<open>
  Claim C2, at a facade with trivial relocation, in a translation unit that includes the
  header and nothing that declares \<^verbatim>\<open>memcpy\<close>. The trivial bundle has a move
  constructor, the proxy at address 0 holds 7, and move construction of the proxy at
  address 1 from it does not compile: no buffer is transferred.
\<close>

theorem C2_move_construct_trivial_relocation:
  "HasMoveConstructor (trivial_ptr_constraints 8 8) \<and>
   relocatability (trivial_ptr_constraints 8 8) = trivial \<and>
   held_value embedded_state (object 0) = Some 7 \<and>
   proxy_move_ctor header_alone (trivial_ptr_constraints 8 8) regular_type (object 1) (object 0)
     embedded_state = Ill_formed"
  by (simp add: proxy_move_ctor_def memcpy_missing_def header_alone_def
      trivial_ptr_constraints_def capability_defs embedded_state_def held_value_def)

subsection \<open>Exceptions out of the members\<close>


lemma noexcept_Returns_iff: "noexcept b m = Returns a s \<longleftrightarrow> m = Returns a s"
  by (cases b; cases m) auto


lemma and_then_Returns_iff:
  "and_then m f = Returns b s \<longleftrightarrow> (\<exists>a s1. m = Returns a s1 \<and> f a s1 = Returns b s)"
  by (cases m) auto



lemma delete_expr_not_Throws: "delete_expr p s \<noteq> Throws e s'"
  by (auto simp: delete_expr_def split: option.splits)















subsection \<open>The order of the calls\<close>











subsection \<open>Copy assignment\<close>












subsection \<open>Self-assignment\<close>





lemma deep_ptr_admitted:
  assumes "holder_admitted C Tt sp ap deep_ptr"
  shows "copyability C = none \<or> copyability C = nontrivial"
    "relocatability C \<noteq> trivial" "destructibility C \<noteq> trivial"
  using assms
  by (cases "copyability C"; cases "relocatability C"; cases "destructibility C";
      simp add: holder_admitted_def deep_ptr_traits_def)+






subsection \<open>Swap\<close>

text \<open>
  Claim C7, at a facade with trivial relocation. The trivial bundle has a move
  constructor, the proxy at address 0 holds 7, and \<^verbatim>\<open>swap\<close> of the proxies at
  addresses 0 and 1 does not compile, whatever the translation unit declares: there is
  no first swap to undo.
\<close>

theorem C7_swap_trivial_relocation:
  "HasMoveConstructor (trivial_ptr_constraints 8 8) \<and>
   held_value embedded_state (object 0) = Some 7 \<and>
   swap U (trivial_ptr_constraints 8 8) regular_type (object 0) (object 1) embedded_state
     = Ill_formed"
  by (simp add: swap_def trivial_ptr_constraints_def capability_defs embedded_state_def
      held_value_def)

text \<open>
  Where relocation goes through the move entry, \<^verbatim>\<open>swap\<close> does what the claim says:
  it exchanges tables and values, and a second \<^verbatim>\<open>swap\<close> restores both proxies.
\<close>

lemma swappable_cases:
  assumes "swappable T s a"
  obtains (empty) "proxy_meta (objects s a) = None"
  | (sbo) v where "proxy_meta (objects s a) = Some sbo_ptr" "proxy_ptr (objects s a) = sbo_bytes v"
      "T_move T v = Some v"
  | (deep) p v where "proxy_meta (objects s a) = Some deep_ptr"
      "proxy_ptr (objects s a) = deep_bytes (Some p)" "heap_lookup (heap s) p = Some v"
  using assms unfolding swappable_def held_value_cases by auto

lemma held_value_cong:
  "objects s' a = objects s a \<Longrightarrow> heap s' = heap s \<Longrightarrow> held_value s' a = held_value s a"
  by (simp add: held_value_def cong: option.case_cong)

lemma swappable_cong:
  "swappable T s a \<Longrightarrow> objects s' a = objects s a \<Longrightarrow> heap s' = heap s \<Longrightarrow> swappable T s' a"
  using held_value_cong [of s' a s] by (simp add: swappable_def)

lemma swappable_transfer:
  assumes "swappable T s a" "proxy_meta (objects s' b) = proxy_meta (objects s a)"
    "held_value s' b = held_value s a"
  shows "swappable T s' b"
  using assms unfolding swappable_def by auto

lemma held_value_empty: "proxy_meta (objects s a) = None \<Longrightarrow> held_value s a = None"
  by (simp add: held_value_def)

lemma move_ctor_effect:
  assumes C: "HasMoveConstructor C" and nt: "relocatability C \<noteq> trivial"
    and ne: "b \<noteq> a" and a: "swappable T s a"
  shows "\<exists>s'. proxy_move_ctor U C T b a s = Returns () s' \<and>
      proxy_meta (objects s' b) = proxy_meta (objects s a) \<and>
      proxy_meta (objects s' a) = None \<and>
      held_value s' b = held_value s a \<and> heap s' = heap s \<and>
      (\<forall>c. c \<noteq> a \<longrightarrow> c \<noteq> b \<longrightarrow> objects s' c = objects s c)"
  using a
proof (cases rule: swappable_cases)
  case empty
  from nt have "\<not> memcpy_missing U C" by (simp add: memcpy_missing_def)
  with empty C ne show ?thesis by (simp add: move_ctor_empty held_value_def)
next
  case (sbo v)
  from move_ctor_sbo [OF C nt ne sbo] sbo ne show ?thesis by (simp add: held_value_def)
next
  case (deep p v)
  from move_ctor_deep [OF C nt ne deep(1,2)] deep ne show ?thesis
    by (simp add: held_value_def)
qed

lemma dtor_empty:
  assumes "HasDestructor C" "proxy_meta (objects s a) = None"
  shows "proxy_dtor C a s = Returns () s"
  using assms by (cases "HasNothrowDestructor C") (simp_all add: proxy_dtor_def)

lemma swap_exchanges:
  assumes C: "HasMoveConstructor C" "relocatability C \<noteq> trivial" "HasDestructor C"
    and ne: "i \<noteq> j"
    and a: "swappable T s (object i)" and b: "swappable T s (object j)"
  shows "\<exists>s'. swap U C T (object i) (object j) s = Returns () s' \<and>
      proxy_meta (objects s' (object i)) = proxy_meta (objects s (object j)) \<and>
      proxy_meta (objects s' (object j)) = proxy_meta (objects s (object i)) \<and>
      held_value s' (object i) = held_value s (object j) \<and>
      held_value s' (object j) = held_value s (object i) \<and>
      heap s' = heap s"
proof -
  have nx: "noexcept (HasNothrowMoveConstructor C) (Returns () s') = Returns () s'" for s' :: "'a machine"
    by (simp add: noexcept_Returns_iff)
  have d: "object i \<noteq> object j" "object j \<noteq> object i" "temporary \<noteq> object i"
    "object i \<noteq> temporary" "temporary \<noteq> object j" "object j \<noteq> temporary"
    using ne by simp_all
  show ?thesis
  proof (cases "proxy_meta (objects s (object i)) = None")
    case ie: True
    show ?thesis
    proof (cases "proxy_meta (objects s (object j)) = None")
      case True
      with ie C show ?thesis by (simp add: swap_def nx held_value_empty)
    next
      case False
      from move_ctor_effect [OF C(1,2) d(1) b] obtain s' where
        "proxy_move_ctor U C T (object i) (object j) s = Returns () s'"
        "proxy_meta (objects s' (object i)) = proxy_meta (objects s (object j))"
        "proxy_meta (objects s' (object j)) = None"
        "held_value s' (object i) = held_value s (object j)" "heap s' = heap s"
        by blast
      with ie False C show ?thesis by (simp add: swap_def nx held_value_empty)
    qed
  next
    case ine: False
    show ?thesis
    proof (cases "proxy_meta (objects s (object j)) = None")
      case True
      from move_ctor_effect [OF C(1,2) d(2) a] obtain s' where
        "proxy_move_ctor U C T (object j) (object i) s = Returns () s'"
        "proxy_meta (objects s' (object j)) = proxy_meta (objects s (object i))"
        "proxy_meta (objects s' (object i)) = None"
        "held_value s' (object j) = held_value s (object i)" "heap s' = heap s"
        by blast
      with ine True C show ?thesis by (simp add: swap_def nx held_value_empty)
    next
      case False
      from move_ctor_effect [OF C(1,2) d(3) a] obtain s1 where
        s1: "proxy_move_ctor U C T temporary (object i) s = Returns () s1"
          "proxy_meta (objects s1 temporary) = proxy_meta (objects s (object i))"
          "proxy_meta (objects s1 (object i)) = None"
          "held_value s1 temporary = held_value s (object i)" "heap s1 = heap s"
          "objects s1 (object j) = objects s (object j)"
        using d by blast
      have b1: "swappable T s1 (object j)" using swappable_cong [OF b s1(6,5)] .
      have t1: "swappable T s1 temporary" using swappable_transfer [OF a s1(2,4)] .
      from move_ctor_effect [OF C(1,2) d(1) b1] obtain s2 where
        s2: "proxy_move_ctor U C T (object i) (object j) s1 = Returns () s2"
          "proxy_meta (objects s2 (object i)) = proxy_meta (objects s1 (object j))"
          "proxy_meta (objects s2 (object j)) = None"
          "held_value s2 (object i) = held_value s1 (object j)" "heap s2 = heap s1"
          "objects s2 temporary = objects s1 temporary"
        using d by blast
      have t2: "swappable T s2 temporary" using swappable_cong [OF t1 s2(6,5)] .
      from move_ctor_effect [OF C(1,2) d(6) t2] obtain s3 where
        s3: "proxy_move_ctor U C T (object j) temporary s2 = Returns () s3"
          "proxy_meta (objects s3 (object j)) = proxy_meta (objects s2 temporary)"
          "proxy_meta (objects s3 temporary) = None"
          "held_value s3 (object j) = held_value s2 temporary" "heap s3 = heap s2"
          "objects s3 (object i) = objects s2 (object i)"
        using d by blast
      have "swap U C T (object i) (object j) s = Returns () s3"
        using ine False C s1(1) s2(1) s3(1) dtor_empty [OF C(3) s3(3)]
        by (simp add: swap_def nx)
      moreover have "held_value s3 (object i) = held_value s (object j)"
        using held_value_cong [OF s3(6,5)] s2(4) held_value_cong [OF s1(6,5)] by simp
      moreover have "held_value s3 (object j) = held_value s (object i)"
        using s3(4) held_value_cong [OF s2(6,5)] s1(4) by simp
      ultimately show ?thesis
        using s1 s2 s3 by simp
    qed
  qed
qed

lemma swap_self_inverse_with_move_entry:
  assumes C: "HasMoveConstructor C" "relocatability C \<noteq> trivial" "HasDestructor C"
    and ne: "i \<noteq> j"
    and a: "swappable T s (object i)" and b: "swappable T s (object j)"
  shows "\<exists>s1 s2. swap U C T (object i) (object j) s = Returns () s1 \<and>
      swap U C T (object i) (object j) s1 = Returns () s2 \<and>
      has_value s2 (object i) = has_value s (object i) \<and>
      has_value s2 (object j) = has_value s (object j) \<and>
      proxy_meta (objects s2 (object i)) = proxy_meta (objects s (object i)) \<and>
      proxy_meta (objects s2 (object j)) = proxy_meta (objects s (object j)) \<and>
      held_value s2 (object i) = held_value s (object i) \<and>
      held_value s2 (object j) = held_value s (object j)"
proof -
  from swap_exchanges [OF C ne a b] obtain s1 where
    s1: "swap U C T (object i) (object j) s = Returns () s1"
      "proxy_meta (objects s1 (object i)) = proxy_meta (objects s (object j))"
      "proxy_meta (objects s1 (object j)) = proxy_meta (objects s (object i))"
      "held_value s1 (object i) = held_value s (object j)"
      "held_value s1 (object j) = held_value s (object i)"
    by blast
  have a1: "swappable T s1 (object i)" using swappable_transfer [OF b s1(2,4)] .
  have b1: "swappable T s1 (object j)" using swappable_transfer [OF a s1(3,5)] .
  from swap_exchanges [OF C ne a1 b1] obtain s2 where
    s2: "swap U C T (object i) (object j) s1 = Returns () s2"
      "proxy_meta (objects s2 (object i)) = proxy_meta (objects s1 (object j))"
      "proxy_meta (objects s2 (object j)) = proxy_meta (objects s1 (object i))"
      "held_value s2 (object i) = held_value s1 (object j)"
      "held_value s2 (object j) = held_value s1 (object i)"
    by blast
  from s1 s2 show ?thesis by (simp add: has_value_def)
qed

subsection \<open>Construction from a value\<close>

text \<open>
  The engaged proxies that \<^verbatim>\<open>make_proxy\<close> makes are the ones the statements above
  are about: the table matches the holder, the holder dereferences to the value, and the
  holder type has passed the check.
\<close>

lemma initialize_engaged:
  assumes "initialize P (Some v) a s = Returns () s'"
  shows "proxy_meta (objects s' a) = Some P \<and> held_value s' a = Some v"
  using assms
  by (cases P)
     (auto simp: initialize_def deep_ptr_ctor_def new_expr_def held_value_def
      and_then_Returns_iff split: if_splits)

lemma make_proxy_impl_engaged:
  assumes "make_proxy_impl F Tt sizeof_ptr alignof_ptr constructible (Some v) a s = Returns () s'"
  shows "\<exists>P. proxy_meta (objects s' a) = Some P \<and> held_value s' a = Some v \<and>
           proxiable (holder_traits Tt sizeof_ptr alignof_ptr P) F \<and>
           holder_admitted (constraints F) Tt sizeof_ptr alignof_ptr P"
proof -
  define P where "P = (if proxiable (sbo_ptr_traits Tt) F then sbo_ptr else deep_ptr)"
  from assms have p: "proxiable (holder_traits Tt sizeof_ptr alignof_ptr P) F"
    and i: "initialize P (Some v) a s = Returns () s'"
    by (auto simp: make_proxy_impl_def P_def Let_def split: if_splits)
  from p have "holder_admitted (constraints F) Tt sizeof_ptr alignof_ptr P"
    by (simp add: proxiable_def applicable_ptr_def holder_admitted_def)
  with initialize_engaged [OF i] p show ?thesis by blast
qed

end
